theory Spec2Isabelle
  imports Main "HOL-Library.Multiset"
begin

section \<open>Errors\<close>

text \<open>
  Go errors are values. \<open>Error\<close> is an error created with a message (by
  \<^verbatim>\<open>errors.Errorf\<close> or by one of the decoding libraries), \<open>WithMessage\<close> is what
  \<^verbatim>\<open>errors.Wrap\<close> builds around a cause. A Go \<^verbatim>\<open>error\<close> interface value is an
  \<open>error option\<close>: \<open>None\<close> is \<^verbatim>\<open>nil\<close>.
\<close>

datatype error = Error string | WithMessage error string

text \<open>
  \<^verbatim>\<open>errors.Wrap(err, message)\<close> of github.com/pkg/errors: "If err is nil, Wrap returns
  nil."
\<close>

fun Wrap :: "error option \<Rightarrow> string \<Rightarrow> error option" where
  "Wrap None message = None"
| "Wrap (Some err) message = Some (WithMessage err message)"

section \<open>wrapListData\<close>

text \<open>
  \<^verbatim>\<open>wrapListData(resource string, data []byte) ([]byte, error)\<close>, lines 199-265 of
  pkg/sbctl/compatibility.go. Byte slices and Go strings are \<open>string\<close>s (lists of
  8-bit characters). The switch picks \<open>kind\<close> and \<open>apiVersion\<close>; the default case
  returns the error. \<^verbatim>\<open>fmt.Sprintf\<close> splices the three strings into the raw string
  literal of the source, whose lines are indented with tabs.
\<close>

definition wrapListData :: "string \<Rightarrow> string \<Rightarrow> error + string" where
  \<open>wrapListData resource data =
    (case
       (if resource = ''pods'' then Some (''PodList'', ''v1'')
        else if resource = ''events'' then Some (''EventList'', ''v1'')
        else if resource = ''cronjobs'' then Some (''CronJobList'', ''batch/v1beta1'')
        else if resource = ''deployments'' then Some (''DeploymentList'', ''apps/v1'')
        else if resource = ''ingress'' \<or> resource = ''ingresses''
          then Some (''IngressList'', ''networking.k8s.io/v1'')
        else if resource = ''jobs'' then Some (''JobList'', ''batch/v1'')
        else if resource = ''limitranges'' then Some (''LimitRangeList'', ''v1'')
        else if resource = ''pvcs'' then Some (''PersistentVolumeClaimList'', ''v1'')
        else if resource = ''replicasets'' then Some (''ReplicaSetList'', ''apps/v1'')
        else if resource = ''services'' then Some (''ServiceList'', ''v1'')
        else if resource = ''statefulsets'' then Some (''StatefulSetList'', ''apps/v1'')
        else if resource = ''namespaces'' then Some (''NamespaceList'', ''v1'')
        else if resource = ''nodes'' then Some (''NodeList'', ''v1'')
        else if resource = ''persistentvolumes'' then Some (''PersistentVolumeList'', ''v1'')
        else if resource = ''persistentvolumeclaims''
          then Some (''PersistentVolumeClaimList'', ''v1'')
        else if resource = ''storageclasses''
          then Some (''StorageClassList'', ''storage.k8s.io/v1'')
        else if resource = ''customresourcedefinitions''
          then Some (''CustomResourceDefinitionList'', ''apiextensions.k8s.io/v1'')
        else None)
     of
       None \<Rightarrow> Inl (Error (''don't know how to wrap '' @ resource))
     | Some (kind, apiVersion) \<Rightarrow>
         Inr (''{\<newline>'' @
              [CHR 0x09, CHR 0x09] @ ''"kind": "'' @ kind @ ''",\<newline>'' @
              [CHR 0x09, CHR 0x09] @ ''"apiVersion": "'' @ apiVersion @ ''",\<newline>'' @
              [CHR 0x09, CHR 0x09] @ ''"metadata": {\<newline>'' @
              [CHR 0x09, CHR 0x09, CHR 0x09] @ ''"resourceVersion": "1"\<newline>'' @
              [CHR 0x09, CHR 0x09] @ ''},\<newline>'' @
              [CHR 0x09, CHR 0x09] @ ''"items": '' @ data @ ''\<newline>'' @
              [CHR 0x09] @ ''}''))\<close>

section \<open>Group, version and kind\<close>

text \<open>
  \<^verbatim>\<open>schema.GroupVersionKind\<close> of k8s.io/apimachinery; a field the source's composite
  literals leave out is the empty string.
\<close>

record GroupVersionKind =
  Group :: string
  Version :: string
  Kind :: string

text \<open>
  The methods of the schema package that the stamping goes through:
  \<^verbatim>\<open>Empty\<close> (all three fields empty), \<^verbatim>\<open>GroupVersion.String\<close> (the group, a slash
  and the version, or the version alone when the group is empty),
  \<^verbatim>\<open>ToAPIVersionAndKind\<close> (two empty strings for the empty value) and
  \<^verbatim>\<open>ParseGroupVersion\<close> (no slash: a version of the core group; one slash: group
  and version; more: an error; the empty string and \<^verbatim>\<open>"/"\<close>: the empty value).
\<close>

definition Empty :: "GroupVersionKind \<Rightarrow> bool" where
  "Empty gvk = (length (Group gvk) = 0 \<and> length (Version gvk) = 0 \<and> length (Kind gvk) = 0)"

definition GroupVersion_String :: "string \<Rightarrow> string \<Rightarrow> string" where
  "GroupVersion_String g v = (if length g > 0 then g @ ''/'' @ v else v)"

definition ToAPIVersionAndKind :: "GroupVersionKind \<Rightarrow> string \<times> string" where
  "ToAPIVersionAndKind gvk =
     (if Empty gvk then ('''', '''')
      else (GroupVersion_String (Group gvk) (Version gvk), Kind gvk))"

definition ParseGroupVersion :: "string \<Rightarrow> error + string \<times> string" where
  "ParseGroupVersion gv =
     (if length gv = 0 \<or> gv = ''/'' then Inr ('''', '''')
      else if count_list gv (CHR ''/'') = 0 then Inr ('''', gv)
      else if count_list gv (CHR ''/'') = 1
        then Inr (takeWhile (\<lambda>c. c \<noteq> CHR ''/'') gv, tl (dropWhile (\<lambda>c. c \<noteq> CHR ''/'') gv))
      else Inl (Error (''unexpected GroupVersion string: '' @ gv)))"

section \<open>Objects\<close>

text \<open>
  \<^verbatim>\<open>metav1.TypeMeta\<close>, embedded in every typed object and list, and its
  \<^verbatim>\<open>SetGroupVersionKind\<close>, which assigns the pair \<^verbatim>\<open>ToAPIVersionAndKind\<close> returns.
\<close>

record TypeMeta =
  TypeAPIVersion :: string
  TypeKind :: string

definition SetGroupVersionKind :: "GroupVersionKind \<Rightarrow> TypeMeta \<Rightarrow> TypeMeta" where
  "SetGroupVersionKind gvk obj =
     (case ToAPIVersionAndKind gvk of
        (v, k) \<Rightarrow> obj\<lparr>TypeAPIVersion := v, TypeKind := k\<rparr>)"

text \<open>
  A typed item (a \<^verbatim>\<open>corev1.Pod\<close>, an \<^verbatim>\<open>appsv1.Deployment\<close>, ...) is its type
  metadata and the rest of the struct (object metadata, spec, status), which Decode
  never reads: \<open>'a\<close>. A typed list is its own type metadata, its list metadata and
  the slice of items.
\<close>

record 'a Item =
  ItemTypeMeta :: TypeMeta
  ItemFields :: 'a

record 'a TypedList =
  ListTypeMeta :: TypeMeta
  ListMeta :: 'a
  Items :: "'a Item list"

text \<open>
  An \<^verbatim>\<open>unstructured.Unstructured\<close> is a map from JSON keys to values. The model
  keeps what its accessors return: \<^verbatim>\<open>GetAPIVersion\<close>, \<^verbatim>\<open>GetKind\<close>,
  \<^verbatim>\<open>GetNamespace\<close>, \<^verbatim>\<open>GetName\<close> (the empty string when the key is absent), the
  creation timestamp (\<open>None\<close> when \<^verbatim>\<open>metadata.creationTimestamp\<close> is absent, empty
  or does not parse) and the rest of the map. An instant is an \<open>int\<close>: its distance
  from Go's zero \<^verbatim>\<open>time.Time\<close>, so the zero time is \<open>0\<close>.
\<close>

record 'a Unstructured =
  apiVersion :: string
  kind :: string
  namespace :: string
  name :: string
  creationTimestamp :: "int option"
  rest :: 'a

text \<open>
  An \<^verbatim>\<open>unstructured.UnstructuredList\<close>: the \<^verbatim>\<open>apiVersion\<close> and \<^verbatim>\<open>kind\<close> of its
  \<^verbatim>\<open>Object\<close> map (empty strings in \<^verbatim>\<open>UnstructuredList{}\<close>) and its \<^verbatim>\<open>Items\<close>.
\<close>

record 'a UnstructuredList =
  ListAPIVersion :: string
  ListKind :: string
  UItems :: "'a Unstructured list"

text \<open>
  \<^verbatim>\<open>Unstructured.GroupVersionKind\<close>: the parsed \<^verbatim>\<open>apiVersion\<close> with the kind, and the
  empty value when the \<^verbatim>\<open>apiVersion\<close> does not parse.
  \<^verbatim>\<open>UnstructuredList.SetGroupVersionKind\<close> stores \<^verbatim>\<open>gvk.GroupVersion().String()\<close>
  and \<^verbatim>\<open>gvk.Kind\<close>.
\<close>

definition GroupVersionKind_of :: "'a Unstructured \<Rightarrow> GroupVersionKind" where
  "GroupVersionKind_of u =
     (case ParseGroupVersion (apiVersion u) of
        Inl err \<Rightarrow> \<lparr>Group = '''', Version = '''', Kind = ''''\<rparr>
      | Inr (g, v) \<Rightarrow> \<lparr>Group = g, Version = v, Kind = kind u\<rparr>)"

definition SetListGroupVersionKind ::
  "GroupVersionKind \<Rightarrow> 'a UnstructuredList \<Rightarrow> 'a UnstructuredList" where
  "SetListGroupVersionKind gvk u =
     u\<lparr>ListAPIVersion := GroupVersion_String (Group gvk) (Version gvk), ListKind := Kind gvk\<rparr>"

text \<open>
  A \<^verbatim>\<open>runtime.Object\<close>, by its dynamic Go type. \<open>ListType\<close> names the sixteen list
  types of Decode's type switch (\<open>CronJobList\<close> is \<^verbatim>\<open>batchv1beta1.CronJobList\<close>);
  \<open>OtherObject\<close> is a value of any other type of the scheme (a single \<^verbatim>\<open>Pod\<close>, an
  \<^verbatim>\<open>IngressList\<close>, ...).
\<close>

datatype ListType =
    EventList
  | PodList
  | LimitRangeList
  | ServiceList
  | NamespaceList
  | NodeList
  | PersistentVolumeList
  | PersistentVolumeClaimList
  | JobList
  | CronJobList
  | DeploymentList
  | ReplicaSetList
  | StatefulSetList
  | StorageClassList
  | CustomResourceDefinitionList
  | ConfigMapList

datatype 'a Object =
    ListObject ListType "'a TypedList"
  | OtherObject 'a
  | UnstructuredObject "'a Unstructured"
  | UnstructuredListObject "'a UnstructuredList"

section \<open>Panics\<close>

text \<open>
  A Go function either returns or panics. The only operations of the source that can
  panic are the index expressions \<^verbatim>\<open>o.Items[i]\<close> and \<^verbatim>\<open>vList[0]\<close>: \<open>index\<close> is Go's
  bounds-checked read. (The calls into the libraries are taken to return, and an object
  they return is never a \<^verbatim>\<open>nil\<close> pointer.)
\<close>

datatype 'r outcome = Panic | Returns 'r

definition index :: "'a list \<Rightarrow> nat \<Rightarrow> 'a outcome" where
  "index xs i = (if i < length xs then Returns (xs ! i) else Panic)"

section \<open>The decoders Decode calls\<close>

text \<open>
  Decode calls two libraries whose code is not part of the repository; their
  byte-level parsers are parameters of the model:
  \<^item> \<open>decode\<close> is \<^verbatim>\<open>scheme.Codecs.UniversalDeserializer().Decode(data, nil, nil)\<close>, with its
    three results (object, kind, error), each of which may be \<^verbatim>\<open>nil\<close>;
  \<^item> \<open>unmarshalMap\<close> is \<^verbatim>\<open>encoding/json\<close> reading the bytes into the
    \<^verbatim>\<open>map[string]interface{}\<close> of an \<^verbatim>\<open>Unstructured\<close>;
  \<^item> \<open>unmarshalElements\<close> is \<^verbatim>\<open>encoding/json\<close> splitting a top-level JSON array into
    the bytes of its elements (no element for \<^verbatim>\<open>null\<close>), and failing on anything else.
\<close>

record 'a Codec =
  decode :: "string \<Rightarrow> 'a Object option \<times> GroupVersionKind option \<times> error option"
  unmarshalMap :: "string \<Rightarrow> error + 'a Unstructured"
  unmarshalElements :: "string \<Rightarrow> error + string list"

text \<open>
  \<^verbatim>\<open>json.Unmarshal(data, &v)\<close> with \<^verbatim>\<open>v\<close> an \<^verbatim>\<open>unstructured.Unstructured\<close> runs
  \<^verbatim>\<open>Unstructured.UnmarshalJSON\<close>, that is \<^verbatim>\<open>UnstructuredJSONScheme.Decode\<close>: it reads the
  map and then fails with a missing-kind error when the kind of the object's
  \<^verbatim>\<open>GroupVersionKind()\<close> is empty.
\<close>

definition Unstructured_UnmarshalJSON :: "'a Codec \<Rightarrow> string \<Rightarrow> error + 'a Unstructured" where
  "Unstructured_UnmarshalJSON c data =
     (case unmarshalMap c data of
        Inl err \<Rightarrow> Inl err
      | Inr u \<Rightarrow>
          if length (Kind (GroupVersionKind_of u)) = 0
          then Inl (Error (''Object 'Kind' is missing in '' @ [CHR 0x27] @ data @ [CHR 0x27]))
          else Inr u)"

text \<open>
  \<^verbatim>\<open>json.Unmarshal(data, &vList)\<close> with \<^verbatim>\<open>vList\<close> a \<^verbatim>\<open>[]unstructured.Unstructured\<close>
  runs \<^verbatim>\<open>Unstructured.UnmarshalJSON\<close> on each element of the array and fails when one
  of them fails.
\<close>

fun unmarshalEach :: "'a Codec \<Rightarrow> string list \<Rightarrow> error + 'a Unstructured list" where
  "unmarshalEach c [] = Inr []"
| "unmarshalEach c (e # es) =
     (case Unstructured_UnmarshalJSON c e of
        Inl err \<Rightarrow> Inl err
      | Inr u \<Rightarrow>
          (case unmarshalEach c es of
             Inl err \<Rightarrow> Inl err
           | Inr us \<Rightarrow> Inr (u # us)))"

definition UnstructuredSlice_Unmarshal ::
  "'a Codec \<Rightarrow> string \<Rightarrow> error + 'a Unstructured list" where
  "UnstructuredSlice_Unmarshal c data =
     (case unmarshalElements c data of
        Inl err \<Rightarrow> Inl err
      | Inr es \<Rightarrow> unmarshalEach c es)"

section \<open>Decode\<close>

text \<open>
  The loop of every case of Decode's type switch,
  \<^verbatim>\<open>for i := range o.Items { o.Items[i].GetObjectKind().SetGroupVersionKind(gvk) }\<close>,
  from index \<open>i\<close> on.
\<close>

function stampItems :: "GroupVersionKind \<Rightarrow> nat \<Rightarrow> 'a Item list \<Rightarrow> 'a Item list outcome" where
  "stampItems gvk i items =
     (if i < length items
      then (case index items i of
              Panic \<Rightarrow> Panic
            | Returns item \<Rightarrow>
                stampItems gvk (Suc i)
                  (items[i := item\<lparr>ItemTypeMeta := SetGroupVersionKind gvk (ItemTypeMeta item)\<rparr>]))
      else Returns items)"
  by pat_completeness auto
termination
  by (relation "measure (\<lambda>(gvk, i, items). length items - i)") auto

declare stampItems.simps [simp del]

text \<open>
  The type switch of Decode (lines 74-194), which the specification calls
  \<open>stampGVK\<close>. \<open>switchGVK\<close> is the composite literal of each case, in the order of
  the source; every case runs the same loop over the list's items, and an object of
  any other type is left as it is.
\<close>

fun switchGVK :: "ListType \<Rightarrow> GroupVersionKind" where
  "switchGVK EventList = \<lparr>Group = '''', Version = ''v1'', Kind = ''Event''\<rparr>"
| "switchGVK PodList = \<lparr>Group = '''', Version = ''v1'', Kind = ''Pod''\<rparr>"
| "switchGVK LimitRangeList = \<lparr>Group = '''', Version = ''v1'', Kind = ''LimitRange''\<rparr>"
| "switchGVK ServiceList = \<lparr>Group = '''', Version = ''v1'', Kind = ''Service''\<rparr>"
| "switchGVK NamespaceList = \<lparr>Group = '''', Version = ''v1'', Kind = ''Namespace''\<rparr>"
| "switchGVK NodeList = \<lparr>Group = '''', Version = ''v1'', Kind = ''Node''\<rparr>"
| "switchGVK PersistentVolumeList =
     \<lparr>Group = '''', Version = ''v1'', Kind = ''PersistentVolume''\<rparr>"
| "switchGVK PersistentVolumeClaimList =
     \<lparr>Group = '''', Version = ''v1'', Kind = ''PersistentVolumeClaim''\<rparr>"
| "switchGVK JobList = \<lparr>Group = ''batch'', Version = ''v1'', Kind = ''Job''\<rparr>"
| "switchGVK CronJobList = \<lparr>Group = ''batch'', Version = ''v1beta1'', Kind = ''CronJob''\<rparr>"
| "switchGVK DeploymentList = \<lparr>Group = ''apps'', Version = ''v1'', Kind = ''Deployment''\<rparr>"
| "switchGVK ReplicaSetList = \<lparr>Group = ''apps'', Version = ''v1'', Kind = ''ReplicaSet''\<rparr>"
| "switchGVK StatefulSetList = \<lparr>Group = ''apps'', Version = ''v1'', Kind = ''StatefulSet''\<rparr>"
| "switchGVK StorageClassList =
     \<lparr>Group = ''storage.k8s.io'', Version = ''v1'', Kind = ''StorageClass''\<rparr>"
| "switchGVK CustomResourceDefinitionList =
     \<lparr>Group = ''apiextensions.k8s.io'', Version = ''v1'',
      Kind = ''CustomResourceDefinitionList''\<rparr>"
| "switchGVK ConfigMapList = \<lparr>Group = '''', Version = ''v1'', Kind = ''ConfigMap''\<rparr>"

fun stampGVK :: "'a Object \<Rightarrow> 'a Object outcome" where
  "stampGVK (ListObject t l) =
     (case stampItems (switchGVK t) 0 (Items l) of
        Panic \<Rightarrow> Panic
      | Returns items \<Rightarrow> Returns (ListObject t (l\<lparr>Items := items\<rparr>)))"
| "stampGVK (OtherObject x) = Returns (OtherObject x)"
| "stampGVK (UnstructuredObject u) = Returns (UnstructuredObject u)"
| "stampGVK (UnstructuredListObject ul) = Returns (UnstructuredListObject ul)"

text \<open>
  The Kubernetes kind and \<^verbatim>\<open>apiVersion\<close> of each list type of the switch: the kind is
  the name of the Go type, the \<^verbatim>\<open>apiVersion\<close> is the group and version of the package
  it is imported from (lines 10-15; the core group has no name).
\<close>

fun listKind :: "ListType \<Rightarrow> string" where
  "listKind EventList = ''EventList''"
| "listKind PodList = ''PodList''"
| "listKind LimitRangeList = ''LimitRangeList''"
| "listKind ServiceList = ''ServiceList''"
| "listKind NamespaceList = ''NamespaceList''"
| "listKind NodeList = ''NodeList''"
| "listKind PersistentVolumeList = ''PersistentVolumeList''"
| "listKind PersistentVolumeClaimList = ''PersistentVolumeClaimList''"
| "listKind JobList = ''JobList''"
| "listKind CronJobList = ''CronJobList''"
| "listKind DeploymentList = ''DeploymentList''"
| "listKind ReplicaSetList = ''ReplicaSetList''"
| "listKind StatefulSetList = ''StatefulSetList''"
| "listKind StorageClassList = ''StorageClassList''"
| "listKind CustomResourceDefinitionList = ''CustomResourceDefinitionList''"
| "listKind ConfigMapList = ''ConfigMapList''"

fun listAPIVersion :: "ListType \<Rightarrow> string" where
  "listAPIVersion EventList = ''v1''"
| "listAPIVersion PodList = ''v1''"
| "listAPIVersion LimitRangeList = ''v1''"
| "listAPIVersion ServiceList = ''v1''"
| "listAPIVersion NamespaceList = ''v1''"
| "listAPIVersion NodeList = ''v1''"
| "listAPIVersion PersistentVolumeList = ''v1''"
| "listAPIVersion PersistentVolumeClaimList = ''v1''"
| "listAPIVersion JobList = ''batch/v1''"
| "listAPIVersion CronJobList = ''batch/v1beta1''"
| "listAPIVersion DeploymentList = ''apps/v1''"
| "listAPIVersion ReplicaSetList = ''apps/v1''"
| "listAPIVersion StatefulSetList = ''apps/v1''"
| "listAPIVersion StorageClassList = ''storage.k8s.io/v1''"
| "listAPIVersion CustomResourceDefinitionList = ''apiextensions.k8s.io/v1''"
| "listAPIVersion ConfigMapList = ''v1''"

text \<open>
  \<^verbatim>\<open>Decode(resource string, data []byte) (runtime.Object, *schema.GroupVersionKind, error)\<close>,
  lines 27-197. The three results are options (\<open>None\<close> is \<^verbatim>\<open>nil\<close>). The calls of
  \<^verbatim>\<open>log.Warn\<close> only write to the log and are left out. When the first typed decode
  fails, \<open>decoded\<close> and \<open>gvk\<close> keep its results unless \<open>wrapListData\<close> succeeds and the
  second typed decode overwrites them.
\<close>

definition Decode ::
  "'a Codec \<Rightarrow> string \<Rightarrow> string
     \<Rightarrow> ('a Object option \<times> GroupVersionKind option \<times> error option) outcome" where
  "Decode c resource data =
     (case decode c data of
        (decoded, gvk, None) \<Rightarrow> Returns (decoded, gvk, None)
      | (decoded, gvk, Some err) \<Rightarrow>
          (case
             (case wrapListData resource data of
                Inl err \<Rightarrow> (decoded, gvk)
              | Inr wrapped \<Rightarrow>
                  (case decode c wrapped of (decoded', gvk', err') \<Rightarrow> (decoded', gvk')))
           of
             (None, gvk) \<Rightarrow>
               (case Unstructured_UnmarshalJSON c data of
                  Inr v \<Rightarrow>
                    Returns (Some (UnstructuredObject v), Some (GroupVersionKind_of v), None)
                | Inl err \<Rightarrow>
                    (case UnstructuredSlice_Unmarshal c data of
                       Inr vList \<Rightarrow>
                         if length vList > 0
                         then (case index vList 0 of
                                 Panic \<Rightarrow> Panic
                               | Returns first \<Rightarrow>
                                   Returns
                                     (Some (UnstructuredListObject
                                        ((SetListGroupVersionKind (GroupVersionKind_of first)
                                            \<lparr>ListAPIVersion = '''', ListKind = '''', UItems = []\<rparr>)
                                         \<lparr>UItems := [] @ vList\<rparr>)),
                                      Some (GroupVersionKind_of first), None))
                         else Returns
                                (None, None, Wrap None ''could not decode data into a k8s object'')
                     | Inl err \<Rightarrow>
                         Returns
                           (None, None,
                            Wrap (Some err) ''could not decode data into a k8s object'')))
           | (Some obj, gvk) \<Rightarrow>
               (case stampGVK obj of
                  Panic \<Rightarrow> Panic
                | Returns stamped \<Rightarrow> Returns (Some stamped, gvk, None))))"

text \<open>
  The condition under which Decode goes on to its untyped attempts, \<^verbatim>\<open>decoded == nil\<close>
  at line 46, in terms of the inputs: the first typed decode returned an error, and
  either the payload could not be wrapped and that decode left no object, or the
  typed decode of the wrapped payload left none.
\<close>

definition noTypedObject :: "'a Codec \<Rightarrow> string \<Rightarrow> string \<Rightarrow> bool" where
  "noTypedObject c resource data =
     (case decode c data of
        (decoded, gvk, None) \<Rightarrow> False
      | (decoded, gvk, Some err) \<Rightarrow>
          (case wrapListData resource data of
             Inl err' \<Rightarrow> decoded = None
           | Inr wrapped \<Rightarrow> fst (decode c wrapped) = None))"

text \<open>\<^verbatim>\<open>strings.HasSuffix(k, "List")\<close>: whether a kind ends in \<^verbatim>\<open>List\<close>.\<close>

definition endsInList :: "string \<Rightarrow> bool" where
  "endsInList k = (length k \<ge> 4 \<and> drop (length k - 4) k = ''List'')"

section \<open>SortUnstructuredList\<close>

text \<open>
  \<^verbatim>\<open>Unstructured.GetCreationTimestamp\<close> is the zero time when the timestamp is
  missing; \<^verbatim>\<open>Time.Before\<close> is the strict order of instants.
\<close>

definition GetCreationTimestamp :: "'a Unstructured \<Rightarrow> int" where
  "GetCreationTimestamp u = (case creationTimestamp u of None \<Rightarrow> 0 | Some t \<Rightarrow> t)"

definition Before :: "int \<Rightarrow> int \<Rightarrow> bool" where
  "Before t u = (t < u)"

text \<open>
  \<^verbatim>\<open>SortUnstructuredList(list *unstructured.UnstructuredList)\<close>, lines 285-291, sorts
  \<^verbatim>\<open>list.Items\<close> in place with \<^verbatim>\<open>sort.Slice\<close> and the comparison of the source;
  the model returns the list. \<^verbatim>\<open>sort.Slice\<close> belongs to Go's standard library and is
  the parameter \<open>sortSlice\<close>.
\<close>

definition SortUnstructuredList ::
  "(('a Unstructured \<Rightarrow> 'a Unstructured \<Rightarrow> bool) \<Rightarrow> 'a Unstructured list \<Rightarrow> 'a Unstructured list)
     \<Rightarrow> 'a UnstructuredList \<Rightarrow> 'a UnstructuredList" where
  "SortUnstructuredList sortSlice list =
     list\<lparr>UItems :=
       sortSlice (\<lambda>i j. Before (GetCreationTimestamp i) (GetCreationTimestamp j)) (UItems list)\<rparr>"

text \<open>
  What \<^verbatim>\<open>sort.Slice\<close> promises for a comparison \<open>lessFn\<close>: the slice is reordered so
  that no element is less than an earlier one. Its documentation adds that the sort
  is not guaranteed to be stable.
\<close>

definition sortsBy :: "(('a \<Rightarrow> 'a \<Rightarrow> bool) \<Rightarrow> 'a list \<Rightarrow> 'a list) \<Rightarrow> ('a \<Rightarrow> 'a \<Rightarrow> bool) \<Rightarrow> bool" where
  "sortsBy sortSlice lessFn =
     (\<forall>xs. mset (sortSlice lessFn xs) = mset xs \<and>
           sorted_wrt (\<lambda>x y. \<not> lessFn y x) (sortSlice lessFn xs))"

text \<open>
  On a slice of at most twelve elements \<^verbatim>\<open>sort.Slice\<close> (Go 1.21, the version the
  repository builds with) runs only \<^verbatim>\<open>insertionSort_func(data, 0, n)\<close> of the package \<^verbatim>\<open>sort\<close>:
  \<^verbatim>\<open>
  for i := a + 1; i < b; i++ {
      for j := i; j > a && less(j, j-1); j-- {
          swap(j, j-1)
      }
  }
  \<close>
  \<open>insertionSortInner\<close> is the inner loop from \<open>j\<close> on, \<open>insertionSortFrom\<close> the outer
  loop from \<open>i\<close> on, both with \<open>a = 0\<close>.
\<close>

function insertionSortInner :: "('a \<Rightarrow> 'a \<Rightarrow> bool) \<Rightarrow> nat \<Rightarrow> 'a list \<Rightarrow> 'a list" where
  "insertionSortInner lessFn j data =
     (if j > 0 \<and> lessFn (data ! j) (data ! (j - 1))
      then insertionSortInner lessFn (j - 1) (data[j := data ! (j - 1), j - 1 := data ! j])
      else data)"
  by pat_completeness auto
termination
  by (relation "measure (\<lambda>(lessFn, j, data). j)") auto

declare insertionSortInner.simps [simp del]

function insertionSortFrom :: "('a \<Rightarrow> 'a \<Rightarrow> bool) \<Rightarrow> nat \<Rightarrow> nat \<Rightarrow> 'a list \<Rightarrow> 'a list" where
  "insertionSortFrom lessFn i b data =
     (if i < b
      then insertionSortFrom lessFn (Suc i) b (insertionSortInner lessFn i data)
      else data)"
  by pat_completeness auto
termination
  by (relation "measure (\<lambda>(lessFn, i, b, data). b - i)") auto

declare insertionSortFrom.simps [simp del]

definition insertionSort_func :: "('a \<Rightarrow> 'a \<Rightarrow> bool) \<Rightarrow> 'a list \<Rightarrow> 'a list" where
  "insertionSort_func lessFn data = insertionSortFrom lessFn 1 (length data) data"

section \<open>Example payloads\<close>

text \<open>
  The payloads of the examples below: a complete \<^verbatim>\<open>PodList\<close>; bare JSON arrays of one
  pod and of one custom resource definition, as support bundles store them; a custom
  resource, alone and in an array; an object without a kind; the empty array.
\<close>

definition podListJSON :: string where
  \<open>podListJSON = ''{"kind":"PodList","apiVersion":"v1","items":[{"metadata":{"name":"web"}}]}''\<close>

definition podArrayJSON :: string where
  \<open>podArrayJSON = ''[{"metadata":{"name":"web"}}]''\<close>

definition crdArrayJSON :: string where
  \<open>crdArrayJSON = ''[{"metadata":{"name":"widgets.example.com"}}]''\<close>

definition widgetJSON :: string where
  \<open>widgetJSON = ''{"kind":"Widget","apiVersion":"example.com/v1","metadata":{"name":"w"}}''\<close>

definition widgetArrayJSON :: string where
  \<open>widgetArrayJSON =
     ''[{"kind":"Widget","apiVersion":"example.com/v1","metadata":{"name":"w"}}]''\<close>

definition noKindJSON :: string where
  \<open>noKindJSON = ''{"metadata":{"name":"w"}}''\<close>

definition emptyArrayJSON :: string where
  "emptyArrayJSON = ''[]''"

text \<open>
  What the three parsers answer on these payloads and on the envelopes
  \<open>wrapListData\<close> builds around the two bare arrays; the content a model type leaves
  abstract is written as text. Any other payload counts as undecodable. The typed
  decoder reads a list's own \<^verbatim>\<open>kind\<close> and \<^verbatim>\<open>apiVersion\<close> and leaves those of the
  items empty, since the items of a captured list carry none.
\<close>

definition webPod :: "string Item" where
  "webPod = \<lparr>ItemTypeMeta = \<lparr>TypeAPIVersion = '''', TypeKind = ''''\<rparr>,
             ItemFields = ''metadata.name=web''\<rparr>"

definition widgetsCRD :: "string Item" where
  "widgetsCRD = \<lparr>ItemTypeMeta = \<lparr>TypeAPIVersion = '''', TypeKind = ''''\<rparr>,
                 ItemFields = ''metadata.name=widgets.example.com''\<rparr>"

definition widget :: "string Unstructured" where
  "widget = \<lparr>apiVersion = ''example.com/v1'', kind = ''Widget'', namespace = '''',
             name = ''w'', creationTimestamp = None, rest = ''''\<rparr>"

definition noKind :: "string Unstructured" where
  "noKind = \<lparr>apiVersion = '''', kind = '''', namespace = '''',
             name = ''w'', creationTimestamp = None, rest = ''''\<rparr>"

definition sampleDecode ::
  "string \<Rightarrow> string Object option \<times> GroupVersionKind option \<times> error option" where
  "sampleDecode data =
     (if data = podListJSON then
        (Some (ListObject PodList
           \<lparr>ListTypeMeta = \<lparr>TypeAPIVersion = ''v1'', TypeKind = ''PodList''\<rparr>,
            ListMeta = '''', Items = [webPod]\<rparr>),
         Some \<lparr>Group = '''', Version = ''v1'', Kind = ''PodList''\<rparr>, None)
      else if wrapListData ''pods'' podArrayJSON = Inr data then
        (Some (ListObject PodList
           \<lparr>ListTypeMeta = \<lparr>TypeAPIVersion = ''v1'', TypeKind = ''PodList''\<rparr>,
            ListMeta = ''resourceVersion=1'', Items = [webPod]\<rparr>),
         Some \<lparr>Group = '''', Version = ''v1'', Kind = ''PodList''\<rparr>, None)
      else if wrapListData ''customresourcedefinitions'' crdArrayJSON = Inr data then
        (Some (ListObject CustomResourceDefinitionList
           \<lparr>ListTypeMeta = \<lparr>TypeAPIVersion = ''apiextensions.k8s.io/v1'',
                             TypeKind = ''CustomResourceDefinitionList''\<rparr>,
            ListMeta = ''resourceVersion=1'', Items = [widgetsCRD]\<rparr>),
         Some \<lparr>Group = ''apiextensions.k8s.io'', Version = ''v1'',
               Kind = ''CustomResourceDefinitionList''\<rparr>, None)
      else (None, None, Some (Error ''no registered kind in the payload'')))"

definition sampleUnmarshalMap :: "string \<Rightarrow> error + string Unstructured" where
  \<open>sampleUnmarshalMap data =
     (if data = widgetJSON then Inr widget
      else if data = noKindJSON then Inr noKind
      else if data = ''{"metadata":{"name":"web"}}'' then Inr (noKind\<lparr>name := ''web''\<rparr>)
      else if data = ''{"metadata":{"name":"widgets.example.com"}}''
        then Inr (noKind\<lparr>name := ''widgets.example.com''\<rparr>)
      else if data = podListJSON
        then Inr \<lparr>apiVersion = ''v1'', kind = ''PodList'', namespace = '''', name = '''',
                  creationTimestamp = None, rest = ''items''\<rparr>
      else Inl (Error ''json: cannot unmarshal into Go value of type map[string]interface {}''))\<close>

definition sampleUnmarshalElements :: "string \<Rightarrow> error + string list" where
  \<open>sampleUnmarshalElements data =
     (if data = emptyArrayJSON then Inr []
      else if data = podArrayJSON then Inr [''{"metadata":{"name":"web"}}'']
      else if data = crdArrayJSON then Inr [''{"metadata":{"name":"widgets.example.com"}}'']
      else if data = widgetArrayJSON then Inr [widgetJSON]
      else Inl (Error ''json: cannot unmarshal into Go value of type []unstructured.Unstructured''))\<close>

definition sampleCodec :: "string Codec" where
  "sampleCodec =
     \<lparr>decode = sampleDecode,
      unmarshalMap = sampleUnmarshalMap,
      unmarshalElements = sampleUnmarshalElements\<rparr>"

text \<open>
  A typed decoder that returns what it has read beside an error, as a strict decoder
  does, for the one branch of Decode that \<open>sampleCodec\<close> does not reach.
\<close>

definition partialCodec :: "string Codec" where
  "partialCodec =
     sampleCodec\<lparr>decode :=
       (\<lambda>data. (Some (OtherObject ''read in part''), None, Some (Error ''strict decoding error'')))\<rparr>"

text \<open>Two objects without a creation timestamp, in namespace \<open>default\<close>.\<close>

definition objA :: "string Unstructured" where
  "objA = \<lparr>apiVersion = ''v1'', kind = ''ConfigMap'', namespace = ''default'',
           name = ''a'', creationTimestamp = None, rest = ''''\<rparr>"

definition objB :: "string Unstructured" where
  "objB = \<lparr>apiVersion = ''v1'', kind = ''ConfigMap'', namespace = ''default'',
           name = ''b'', creationTimestamp = None, rest = ''''\<rparr>"

section \<open>The stamping loop\<close>

text \<open>
  The loop never reads out of range: from index \<open>i\<close> on it stamps every item and
  returns. So does the switch, and so does Decode.
\<close>

lemma stampItems_eq:
  "stampItems gvk i items =
     Returns (take i items @
       map (\<lambda>item. item\<lparr>ItemTypeMeta := SetGroupVersionKind gvk (ItemTypeMeta item)\<rparr>)
         (drop i items))"
proof (induction gvk i items rule: stampItems.induct)
  case (1 gvk i items)
  show ?case
  proof (cases "i < length items")
    case True
    then have ix: "index items i = Returns (items ! i)"
      by (simp add: index_def)
    from True have d: "drop i items = items ! i # drop (Suc i) items"
      by (simp add: Cons_nth_drop_Suc)
    from True show ?thesis
      using "1.IH" [OF True ix]
      by (subst stampItems.simps) (simp add: ix d take_Suc_conv_app_nth)
  next
    case False
    then show ?thesis
      by (subst stampItems.simps) simp
  qed
qed

lemma stampItems_0:
  "stampItems gvk 0 items =
     Returns (map (\<lambda>item. item\<lparr>ItemTypeMeta := SetGroupVersionKind gvk (ItemTypeMeta item)\<rparr>)
       items)"
  by (simp add: stampItems_eq)

lemma stampGVK_eq:
  "stampGVK obj =
     Returns (case obj of
        ListObject t l \<Rightarrow>
          ListObject t (l\<lparr>Items :=
            map (\<lambda>item. item\<lparr>ItemTypeMeta :=
                   SetGroupVersionKind (switchGVK t) (ItemTypeMeta item)\<rparr>)
              (Items l)\<rparr>)
      | _ \<Rightarrow> obj)"
  by (cases obj) (simp_all add: stampItems_0)

lemma Decode_never_panics: "Decode c resource data \<noteq> Panic"
  by (auto simp: Decode_def stampGVK_eq index_def split: prod.splits option.splits sum.splits)

lemma SetGroupVersionKind_twice:
  "SetGroupVersionKind gvk (SetGroupVersionKind gvk obj) = SetGroupVersionKind gvk obj"
  by (simp add: SetGroupVersionKind_def split: prod.splits)

lemma switchGVK_stamp:
  "t \<noteq> CustomResourceDefinitionList \<Longrightarrow>
   TypeKind (SetGroupVersionKind (switchGVK t) obj) @ ''List'' = listKind t \<and>
   TypeAPIVersion (SetGroupVersionKind (switchGVK t) obj) = listAPIVersion t"
  by (cases t) (simp_all add: SetGroupVersionKind_def ToAPIVersionAndKind_def Empty_def
      GroupVersion_String_def)

section \<open>The parsers on the example payloads\<close>

text \<open>
  The answers of \<open>sampleCodec\<close>, for the examples of the claims: which payloads
  the typed decoder refuses, what it reads from the two envelopes, which hints
  \<open>wrapListData\<close> refuses, and what the untyped readers return.
\<close>

lemma sample_decode_fails:
  "decode sampleCodec podArrayJSON = (None, None, Some (Error ''no registered kind in the payload''))"
  "decode sampleCodec crdArrayJSON = (None, None, Some (Error ''no registered kind in the payload''))"
  "decode sampleCodec widgetJSON = (None, None, Some (Error ''no registered kind in the payload''))"
  "decode sampleCodec widgetArrayJSON = (None, None, Some (Error ''no registered kind in the payload''))"
  "decode sampleCodec noKindJSON = (None, None, Some (Error ''no registered kind in the payload''))"
  "decode sampleCodec emptyArrayJSON = (None, None, Some (Error ''no registered kind in the payload''))"
  by (simp_all add: sampleCodec_def sampleDecode_def podArrayJSON_def crdArrayJSON_def
      widgetJSON_def widgetArrayJSON_def noKindJSON_def emptyArrayJSON_def podListJSON_def
      wrapListData_def)

lemma sample_podList:
  "decode sampleCodec podListJSON =
      (Some (ListObject PodList
         \<lparr>ListTypeMeta = \<lparr>TypeAPIVersion = ''v1'', TypeKind = ''PodList''\<rparr>,
          ListMeta = '''', Items = [webPod]\<rparr>),
       Some \<lparr>Group = '''', Version = ''v1'', Kind = ''PodList''\<rparr>, None)"
  by (simp add: sampleCodec_def sampleDecode_def)

lemma sample_wrapped_pods:
  "wrapListData ''pods'' podArrayJSON = Inr wrapped \<Longrightarrow>
   decode sampleCodec wrapped =
      (Some (ListObject PodList
         \<lparr>ListTypeMeta = \<lparr>TypeAPIVersion = ''v1'', TypeKind = ''PodList''\<rparr>,
          ListMeta = ''resourceVersion=1'', Items = [webPod]\<rparr>),
       Some \<lparr>Group = '''', Version = ''v1'', Kind = ''PodList''\<rparr>, None)"
  by (simp add: sampleCodec_def sampleDecode_def podArrayJSON_def podListJSON_def
      wrapListData_def) auto

lemma sample_wrapped_crds:
  "wrapListData ''customresourcedefinitions'' crdArrayJSON = Inr wrapped \<Longrightarrow>
   decode sampleCodec wrapped =
      (Some (ListObject CustomResourceDefinitionList
         \<lparr>ListTypeMeta = \<lparr>TypeAPIVersion = ''apiextensions.k8s.io/v1'',
                           TypeKind = ''CustomResourceDefinitionList''\<rparr>,
          ListMeta = ''resourceVersion=1'', Items = [widgetsCRD]\<rparr>),
       Some \<lparr>Group = ''apiextensions.k8s.io'', Version = ''v1'',
             Kind = ''CustomResourceDefinitionList''\<rparr>, None)"
  by (simp add: sampleCodec_def sampleDecode_def crdArrayJSON_def podListJSON_def
      podArrayJSON_def wrapListData_def) auto

lemma sample_unwrappable:
  "wrapListData ''widgets'' data = Inl (Error ''don't know how to wrap widgets'')"
  "wrapListData ''configmaps'' data = Inl (Error ''don't know how to wrap configmaps'')"
  "wrapListData ''secrets'' data = Inl (Error ''don't know how to wrap secrets'')"
  by (simp_all add: wrapListData_def)

lemma sample_noTyped:
  "noTypedObject sampleCodec ''widgets'' widgetJSON"
  "noTypedObject sampleCodec ''widgets'' widgetArrayJSON"
  "noTypedObject sampleCodec ''widgets'' noKindJSON"
  "noTypedObject sampleCodec ''configmaps'' emptyArrayJSON"
  "noTypedObject sampleCodec ''secrets'' emptyArrayJSON"
  by (simp_all add: noTypedObject_def sample_decode_fails sample_unwrappable)

lemma GroupVersionKind_of_widget:
  "GroupVersionKind_of widget = \<lparr>Group = ''example.com'', Version = ''v1'', Kind = ''Widget''\<rparr>"
  by (simp add: GroupVersionKind_of_def ParseGroupVersion_def widget_def)

lemma kind_widget: "kind widget = ''Widget''"
  by (simp add: widget_def)

lemma sample_widget:
  "Unstructured_UnmarshalJSON sampleCodec widgetJSON = Inr widget"
  by (simp add: Unstructured_UnmarshalJSON_def sampleCodec_def sampleUnmarshalMap_def
      GroupVersionKind_of_widget)

lemma sample_widgetArray:
  "Unstructured_UnmarshalJSON sampleCodec widgetArrayJSON =
     Inl (Error ''json: cannot unmarshal into Go value of type map[string]interface {}'')"
  "UnstructuredSlice_Unmarshal sampleCodec widgetArrayJSON = Inr [widget]"
  by (simp_all add: Unstructured_UnmarshalJSON_def UnstructuredSlice_Unmarshal_def sampleCodec_def
      sampleUnmarshalMap_def sampleUnmarshalElements_def GroupVersionKind_of_widget
      widgetArrayJSON_def widgetJSON_def noKindJSON_def podListJSON_def emptyArrayJSON_def
      podArrayJSON_def crdArrayJSON_def)

lemma sample_emptyArray:
  "Unstructured_UnmarshalJSON sampleCodec emptyArrayJSON =
     Inl (Error ''json: cannot unmarshal into Go value of type map[string]interface {}'')"
  "UnstructuredSlice_Unmarshal sampleCodec emptyArrayJSON = Inr []"
  by (simp_all add: Unstructured_UnmarshalJSON_def UnstructuredSlice_Unmarshal_def sampleCodec_def
      sampleUnmarshalMap_def sampleUnmarshalElements_def
      widgetArrayJSON_def widgetJSON_def noKindJSON_def podListJSON_def emptyArrayJSON_def
      podArrayJSON_def crdArrayJSON_def)

lemma sample_noKind:
  "unmarshalMap sampleCodec noKindJSON = Inr noKind"
  "kind noKind = ''''"
  "Unstructured_UnmarshalJSON sampleCodec noKindJSON =
     Inl (Error (''Object 'Kind' is missing in '' @ [CHR 0x27] @ noKindJSON @ [CHR 0x27]))"
  "UnstructuredSlice_Unmarshal sampleCodec noKindJSON =
     Inl (Error ''json: cannot unmarshal into Go value of type []unstructured.Unstructured'')"
  by (simp_all add: Unstructured_UnmarshalJSON_def UnstructuredSlice_Unmarshal_def sampleCodec_def
      sampleUnmarshalMap_def sampleUnmarshalElements_def GroupVersionKind_of_def
      ParseGroupVersion_def noKind_def
      widgetArrayJSON_def widgetJSON_def noKindJSON_def podListJSON_def emptyArrayJSON_def
      podArrayJSON_def crdArrayJSON_def)

section \<open>The untyped attempts\<close>

text \<open>
  What Decode returns once no typed decode has left an object: the untyped object,
  else the list around a non-empty array, else no object, with the wrapped error of
  the array attempt, which is \<^verbatim>\<open>nil\<close> for an empty array.
\<close>

lemma Decode_untyped:
  assumes "noTypedObject c resource data"
  shows "Decode c resource data =
     (case Unstructured_UnmarshalJSON c data of
        Inr v \<Rightarrow> Returns (Some (UnstructuredObject v), Some (GroupVersionKind_of v), None)
      | Inl err \<Rightarrow>
          (case UnstructuredSlice_Unmarshal c data of
             Inr [] \<Rightarrow> Returns (None, None, None)
           | Inr (first # others) \<Rightarrow>
               Returns
                 (Some (UnstructuredListObject
                    \<lparr>ListAPIVersion =
                       GroupVersion_String (Group (GroupVersionKind_of first))
                         (Version (GroupVersionKind_of first)),
                     ListKind = Kind (GroupVersionKind_of first),
                     UItems = first # others\<rparr>),
                  Some (GroupVersionKind_of first), None)
           | Inl err' \<Rightarrow>
               Returns (None, None,
                 Some (WithMessage err' ''could not decode data into a k8s object''))))"
  using assms
  by (auto simp: noTypedObject_def Decode_def index_def SetListGroupVersionKind_def
      split: prod.splits option.splits sum.splits list.splits)

lemma Unstructured_UnmarshalJSON_Inr:
  assumes "Unstructured_UnmarshalJSON c data = Inr v"
  shows "unmarshalMap c data = Inr v" and "Kind (GroupVersionKind_of v) \<noteq> ''''"
    and "kind v \<noteq> ''''" and "Kind (GroupVersionKind_of v) = kind v"
  using assms
  by (auto simp: Unstructured_UnmarshalJSON_def GroupVersionKind_of_def
      split: sum.splits if_splits prod.splits)

lemma unmarshalEach_kinds:
  "unmarshalEach c es = Inr us \<Longrightarrow> u \<in> set us \<Longrightarrow> kind u \<noteq> ''''"
proof (induction es arbitrary: us)
  case Nil
  then show ?case by simp
next
  case (Cons e es)
  then show ?case
    by (auto split: sum.splits dest: Unstructured_UnmarshalJSON_Inr(3))
qed

lemma UnstructuredSlice_Unmarshal_kinds:
  "UnstructuredSlice_Unmarshal c data = Inr us \<Longrightarrow> u \<in> set us \<Longrightarrow> kind u \<noteq> ''''"
  by (auto simp: UnstructuredSlice_Unmarshal_def split: sum.splits dest: unmarshalEach_kinds)

lemma UnstructuredSlice_Unmarshal_first:
  assumes "UnstructuredSlice_Unmarshal c data = Inr (first # others)"
  shows "Kind (GroupVersionKind_of first) = kind first" and "kind first \<noteq> ''''"
proof -
  from assms have k: "kind first \<noteq> ''''"
    by (rule UnstructuredSlice_Unmarshal_kinds) simp
  from assms obtain es where "unmarshalEach c es = Inr (first # others)"
    by (auto simp: UnstructuredSlice_Unmarshal_def split: sum.splits)
  then obtain e where "Unstructured_UnmarshalJSON c e = Inr first"
    by (cases es) (auto split: sum.splits)
  then show "Kind (GroupVersionKind_of first) = kind first"
    by (rule Unstructured_UnmarshalJSON_Inr(4))
  from k show "kind first \<noteq> ''''" .
qed

section \<open>Go's insertion sort\<close>

text \<open>
  The insertion sort keeps the length and the elements of the slice, and for a
  comparison of keys it leaves the slice in ascending order of the keys. The
  invariant of the inner loop: every pair of positions up to \<open>i\<close> is in order, except
  the pairs whose later position is \<open>j\<close>, where the element being inserted stands.
\<close>

lemma length_insertionSortInner [simp]:
  "length (insertionSortInner lessFn j data) = length data"
proof (induction lessFn j data rule: insertionSortInner.induct)
  case (1 lessFn j data)
  then show ?case
    by (subst insertionSortInner.simps) simp
qed

lemma mset_insertionSortInner:
  "j < length data \<Longrightarrow> mset (insertionSortInner lessFn j data) = mset data"
proof (induction lessFn j data rule: insertionSortInner.induct)
  case (1 lessFn j data)
  show ?case
  proof (cases "j > 0 \<and> lessFn (data ! j) (data ! (j - 1))")
    case True
    with "1.prems" have "mset (data[j := data ! (j - 1), j - 1 := data ! j]) = mset data"
      by (simp add: mset_swap)
    with True "1.prems" "1.IH" show ?thesis
      by (subst insertionSortInner.simps) simp
  next
    case False
    then show ?thesis
      by (subst insertionSortInner.simps) auto
  qed
qed

lemma insertionSortInner_sorted:
  fixes f :: "'a \<Rightarrow> 'b::linorder"
  assumes "j \<le> i" and "i < length data"
    and "\<forall>a b. a < b \<and> b \<le> i \<and> b \<noteq> j \<longrightarrow> f (data ! a) \<le> f (data ! b)"
  shows "\<forall>a b. a < b \<and> b \<le> i \<longrightarrow>
           f (insertionSortInner (\<lambda>x y. f x < f y) j data ! a)
             \<le> f (insertionSortInner (\<lambda>x y. f x < f y) j data ! b)"
  using assms
proof (induction "\<lambda>x y. f x < f y" j data rule: insertionSortInner.induct)
  case (1 j data)
  show ?case
  proof (cases "j > 0 \<and> f (data ! j) < f (data ! (j - 1))")
    case True
    let ?d = "data[j := data ! (j - 1), j - 1 := data ! j]"
    have inv: "\<forall>a b. a < b \<and> b \<le> i \<and> b \<noteq> j - 1 \<longrightarrow> f (?d ! a) \<le> f (?d ! b)"
    proof (intro allI impI)
      fix a b
      assume ab: "a < b \<and> b \<le> i \<and> b \<noteq> j - 1"
      have old: "\<And>x y. x < y \<Longrightarrow> y \<le> i \<Longrightarrow> y \<noteq> j \<Longrightarrow> f (data ! x) \<le> f (data ! y)"
        using "1.prems"(3) by blast
      have lj: "j < length data" and lb: "b < length data" and la: "a < length data"
        using "1.prems"(1,2) ab by auto
      consider (bj) "b = j" | (bgt) "b > j" | (blt) "b < j - 1"
        using ab by linarith
      then show "f (?d ! a) \<le> f (?d ! b)"
      proof cases
        case bj
        show ?thesis
        proof (cases "a = j - 1")
          case True
          with bj True ab lj \<open>j > 0 \<and> f (data ! j) < f (data ! (j - 1))\<close> show ?thesis
            by (simp add: nth_list_update less_imp_le)
        next
          case False
          with bj ab have "a < j - 1" by linarith
          then have "a \<noteq> j" "a \<noteq> j - 1" "j - 1 \<noteq> j" "j - 1 \<le> i"
            using "1.prems"(1) by linarith+
          with \<open>a < j - 1\<close> bj lj old [of a "j - 1"] show ?thesis
            by simp
        qed
      next
        case bgt
        have "f (data ! a) \<le> f (data ! b)" "f (data ! j) \<le> f (data ! b)"
          "f (data ! (j - 1)) \<le> f (data ! b)"
          using bgt ab old [of a b] old [of j b] old [of "j - 1" b] True by auto
        moreover from bgt have "b \<noteq> j" "b \<noteq> j - 1"
          by linarith+
        ultimately show ?thesis
          using lj la by (auto simp: nth_list_update)
      next
        case blt
        with ab have ne: "a \<noteq> j" "a \<noteq> j - 1" "b \<noteq> j" "b \<noteq> j - 1"
          by linarith+
        with ab old [of a b] show ?thesis
          by simp
      qed
    qed
    from True "1.prems" have "j - 1 \<le> i" "i < length ?d"
      by simp_all
    moreover from True have "insertionSortInner (\<lambda>x y. f x < f y) j data =
        insertionSortInner (\<lambda>x y. f x < f y) (j - 1) ?d"
      by (subst insertionSortInner.simps) simp
    ultimately show ?thesis
      using "1.hyps" [OF True _ _ inv] by simp
  next
    case False
    have "\<forall>a b. a < b \<and> b \<le> i \<longrightarrow> f (data ! a) \<le> f (data ! b)"
    proof (intro allI impI)
      fix a b
      assume ab: "a < b \<and> b \<le> i"
      show "f (data ! a) \<le> f (data ! b)"
      proof (cases "b = j")
        case bj: True
        with ab have "j > 0" by simp
        with False have le: "f (data ! (j - 1)) \<le> f (data ! j)"
          by simp
        show ?thesis
        proof (cases "a = j - 1")
          case True
          with le bj show ?thesis by simp
        next
          case a: False
          with bj ab have "a < j - 1" by linarith
          with "1.prems"(1,3) \<open>j > 0\<close> have "f (data ! a) \<le> f (data ! (j - 1))"
            by (metis One_nat_def Suc_pred diff_le_self le_trans less_irrefl_nat
                lessI)
          with le bj show ?thesis by simp
        qed
      next
        case False
        with ab "1.prems"(3) show ?thesis by blast
      qed
    qed
    moreover from False have "insertionSortInner (\<lambda>x y. f x < f y) j data = data"
      by (subst insertionSortInner.simps) auto
    ultimately show ?thesis
      by simp
  qed
qed

lemma length_insertionSortFrom [simp]:
  "length (insertionSortFrom lessFn i b data) = length data"
proof (induction lessFn i b data rule: insertionSortFrom.induct)
  case (1 lessFn i b data)
  then show ?case
    by (subst insertionSortFrom.simps) simp
qed

lemma mset_insertionSortFrom:
  "b \<le> length data \<Longrightarrow> mset (insertionSortFrom lessFn i b data) = mset data"
proof (induction lessFn i b data rule: insertionSortFrom.induct)
  case (1 lessFn i b data)
  show ?case
  proof (cases "i < b")
    case True
    with "1.prems" "1.IH" show ?thesis
      by (subst insertionSortFrom.simps) (simp add: mset_insertionSortInner)
  next
    case False
    then show ?thesis
      by (subst insertionSortFrom.simps) simp
  qed
qed

lemma insertionSortFrom_sorted:
  fixes f :: "'a \<Rightarrow> 'b::linorder"
  assumes "b = length data"
    and "\<forall>a c. a < c \<and> c < i \<longrightarrow> f (data ! a) \<le> f (data ! c)"
  shows "\<forall>a c. a < c \<and> c < length data \<longrightarrow>
           f (insertionSortFrom (\<lambda>x y. f x < f y) i b data ! a)
             \<le> f (insertionSortFrom (\<lambda>x y. f x < f y) i b data ! c)"
  using assms
proof (induction "\<lambda>x y. f x < f y" i b data rule: insertionSortFrom.induct)
  case (1 i b data)
  show ?case
  proof (cases "i < b")
    case True
    let ?d = "insertionSortInner (\<lambda>x y. f x < f y) i data"
    from True "1.prems"(1) have il: "i < length data"
      by simp
    have "\<forall>a c. a < c \<and> c \<le> i \<and> c \<noteq> i \<longrightarrow> f (data ! a) \<le> f (data ! c)"
      using "1.prems"(2) by auto
    from insertionSortInner_sorted [OF le_refl il this]
    have "\<forall>a c. a < c \<and> c < Suc i \<longrightarrow> f (?d ! a) \<le> f (?d ! c)"
      by (simp add: less_Suc_eq_le)
    moreover have "b = length ?d"
      using "1.prems"(1) by simp
    moreover from True have "insertionSortFrom (\<lambda>x y. f x < f y) i b data =
        insertionSortFrom (\<lambda>x y. f x < f y) (Suc i) b ?d"
      by (subst insertionSortFrom.simps) simp
    ultimately show ?thesis
      using "1.hyps" [OF True] by simp
  next
    case False
    then have "insertionSortFrom (\<lambda>x y. f x < f y) i b data = data"
      by (subst insertionSortFrom.simps) simp
    moreover from False "1.prems"(1) have "length data \<le> i"
      by simp
    ultimately show ?thesis
      using "1.prems"(2) by auto
  qed
qed

lemma insertionSort_func_sortsBy:
  fixes f :: "'a \<Rightarrow> 'b::linorder"
  shows "sortsBy insertionSort_func (\<lambda>x y. f x < f y)"
  unfolding sortsBy_def
proof (intro allI conjI)
  fix xs :: "'a list"
  show "mset (insertionSort_func (\<lambda>x y. f x < f y) xs) = mset xs"
    by (simp add: insertionSort_func_def mset_insertionSortFrom)
  have "\<forall>a c. a < c \<and> c < 1 \<longrightarrow> f (xs ! a) \<le> f (xs ! c)"
    by simp
  from insertionSortFrom_sorted [OF refl this]
  show "sorted_wrt (\<lambda>x y. \<not> f y < f x) (insertionSort_func (\<lambda>x y. f x < f y) xs)"
    by (simp add: insertionSort_func_def sorted_wrt_iff_nth_less not_less)
qed

section \<open>The claims\<close>

subsection \<open>The order of the strategies\<close>

text \<open>
  C1. Decode tries its strategies in order and returns the result of the first that
  succeeds; what it returns is fixed by the strategies up to that one alone.
  (1) When the typed decode of the raw bytes returns no error, Decode returns its
  results. (2) When it returns an error and the hint is recognized, the typed decode
  of the wrapped payload is tried, and an object it yields is returned, after the
  stamping pass. An object that the first typed decode left beside its error is
  returned likewise when the payload cannot be wrapped. (3) Only when no typed decode
  left an object is the payload read as an untyped object, which is returned when
  that succeeds. (4) Only when that fails is it read as an untyped array, whose
  non-empty result is returned as a list. Otherwise no object is returned.
\<close>

theorem Decode_strategy_order:
  "(decode c data = (decoded, gvk, None) \<longrightarrow>
      Decode c resource data = Returns (decoded, gvk, None)) \<and>
   (decode c data = (d1, g1, Some e1) \<and> wrapListData resource data = Inr wrapped \<and>
    decode c wrapped = (Some obj, g2, e2) \<longrightarrow>
      (\<exists>stamped. stampGVK obj = Returns stamped \<and>
         Decode c resource data = Returns (Some stamped, g2, None))) \<and>
   (decode c data = (Some obj, g1, Some e1) \<and> wrapListData resource data = Inl e \<longrightarrow>
      (\<exists>stamped. stampGVK obj = Returns stamped \<and>
         Decode c resource data = Returns (Some stamped, g1, None))) \<and>
   (noTypedObject c resource data \<and> Unstructured_UnmarshalJSON c data = Inr v \<longrightarrow>
      Decode c resource data =
        Returns (Some (UnstructuredObject v), Some (GroupVersionKind_of v), None)) \<and>
   (noTypedObject c resource data \<and> Unstructured_UnmarshalJSON c data = Inl e3 \<and>
    UnstructuredSlice_Unmarshal c data = Inr (first # others) \<longrightarrow>
      Decode c resource data =
        Returns
          (Some (UnstructuredListObject
             \<lparr>ListAPIVersion =
                GroupVersion_String (Group (GroupVersionKind_of first))
                  (Version (GroupVersionKind_of first)),
              ListKind = Kind (GroupVersionKind_of first),
              UItems = first # others\<rparr>),
           Some (GroupVersionKind_of first), None)) \<and>
   (noTypedObject c resource data \<and> Unstructured_UnmarshalJSON c data = Inl e3 \<and>
    (UnstructuredSlice_Unmarshal c data = Inr [] \<or>
     UnstructuredSlice_Unmarshal c data = Inl e4) \<longrightarrow>
      (\<exists>err. Decode c resource data = Returns (None, None, err)))"
proof (intro conjI impI)
  assume "decode c data = (decoded, gvk, None)"
  then show "Decode c resource data = Returns (decoded, gvk, None)"
    by (simp add: Decode_def)
next
  assume "decode c data = (d1, g1, Some e1) \<and> wrapListData resource data = Inr wrapped \<and>
    decode c wrapped = (Some obj, g2, e2)"
  then show "\<exists>stamped. stampGVK obj = Returns stamped \<and>
         Decode c resource data = Returns (Some stamped, g2, None)"
    by (simp add: Decode_def stampGVK_eq)
next
  assume "decode c data = (Some obj, g1, Some e1) \<and> wrapListData resource data = Inl e"
  then show "\<exists>stamped. stampGVK obj = Returns stamped \<and>
         Decode c resource data = Returns (Some stamped, g1, None)"
    by (simp add: Decode_def stampGVK_eq)
next
  assume "noTypedObject c resource data \<and> Unstructured_UnmarshalJSON c data = Inr v"
  then show "Decode c resource data =
        Returns (Some (UnstructuredObject v), Some (GroupVersionKind_of v), None)"
    by (simp add: Decode_untyped)
next
  assume "noTypedObject c resource data \<and> Unstructured_UnmarshalJSON c data = Inl e3 \<and>
    UnstructuredSlice_Unmarshal c data = Inr (first # others)"
  then show "Decode c resource data =
        Returns
          (Some (UnstructuredListObject
             \<lparr>ListAPIVersion =
                GroupVersion_String (Group (GroupVersionKind_of first))
                  (Version (GroupVersionKind_of first)),
              ListKind = Kind (GroupVersionKind_of first),
              UItems = first # others\<rparr>),
           Some (GroupVersionKind_of first), None)"
    by (simp add: Decode_untyped)
next
  assume "noTypedObject c resource data \<and> Unstructured_UnmarshalJSON c data = Inl e3 \<and>
    (UnstructuredSlice_Unmarshal c data = Inr [] \<or>
     UnstructuredSlice_Unmarshal c data = Inl e4)"
  then show "\<exists>err. Decode c resource data = Returns (None, None, err)"
    by (auto simp: Decode_untyped)
qed

theorem Decode_strategy_order_witness:
  "Decode sampleCodec ''pods'' podListJSON =
     Returns (Some (ListObject PodList
        \<lparr>ListTypeMeta = \<lparr>TypeAPIVersion = ''v1'', TypeKind = ''PodList''\<rparr>,
         ListMeta = '''', Items = [webPod]\<rparr>),
      Some \<lparr>Group = '''', Version = ''v1'', Kind = ''PodList''\<rparr>, None) \<and>
   (\<exists>stamped.
      stampGVK (ListObject PodList
        \<lparr>ListTypeMeta = \<lparr>TypeAPIVersion = ''v1'', TypeKind = ''PodList''\<rparr>,
         ListMeta = ''resourceVersion=1'', Items = [webPod]\<rparr>) = Returns stamped \<and>
      Decode sampleCodec ''pods'' podArrayJSON =
        Returns (Some stamped, Some \<lparr>Group = '''', Version = ''v1'', Kind = ''PodList''\<rparr>, None)) \<and>
   Decode sampleCodec ''widgets'' widgetJSON =
     Returns (Some (UnstructuredObject widget),
       Some \<lparr>Group = ''example.com'', Version = ''v1'', Kind = ''Widget''\<rparr>, None) \<and>
   Decode sampleCodec ''widgets'' widgetArrayJSON =
     Returns (Some (UnstructuredListObject
        \<lparr>ListAPIVersion = ''example.com/v1'', ListKind = ''Widget'', UItems = [widget]\<rparr>),
       Some \<lparr>Group = ''example.com'', Version = ''v1'', Kind = ''Widget''\<rparr>, None) \<and>
   (\<exists>err. Decode sampleCodec ''widgets'' noKindJSON = Returns (None, None, err)) \<and>
   Decode partialCodec ''widgets'' widgetJSON =
     Returns (Some (OtherObject ''read in part''), None, None)"
proof (intro conjI)
  show "Decode sampleCodec ''pods'' podListJSON =
     Returns (Some (ListObject PodList
        \<lparr>ListTypeMeta = \<lparr>TypeAPIVersion = ''v1'', TypeKind = ''PodList''\<rparr>,
         ListMeta = '''', Items = [webPod]\<rparr>),
      Some \<lparr>Group = '''', Version = ''v1'', Kind = ''PodList''\<rparr>, None)"
    by (rule Decode_strategy_order [THEN conjunct1, THEN mp, OF sample_podList])
next
  obtain wrapped where w: "wrapListData ''pods'' podArrayJSON = Inr wrapped"
    by (simp add: wrapListData_def)
  show "\<exists>stamped.
      stampGVK (ListObject PodList
        \<lparr>ListTypeMeta = \<lparr>TypeAPIVersion = ''v1'', TypeKind = ''PodList''\<rparr>,
         ListMeta = ''resourceVersion=1'', Items = [webPod]\<rparr>) = Returns stamped \<and>
      Decode sampleCodec ''pods'' podArrayJSON =
        Returns (Some stamped, Some \<lparr>Group = '''', Version = ''v1'', Kind = ''PodList''\<rparr>, None)"
    by (rule Decode_strategy_order [THEN conjunct2, THEN conjunct1, THEN mp,
          OF conjI [OF sample_decode_fails(1) conjI [OF w sample_wrapped_pods [OF w]]]])
next
  show "Decode sampleCodec ''widgets'' widgetJSON =
     Returns (Some (UnstructuredObject widget),
       Some \<lparr>Group = ''example.com'', Version = ''v1'', Kind = ''Widget''\<rparr>, None)"
    using Decode_strategy_order [THEN conjunct2, THEN conjunct2, THEN conjunct2, THEN conjunct1,
        THEN mp, OF conjI [OF sample_noTyped(1) sample_widget]]
    by (simp add: GroupVersionKind_of_widget)
next
  show "Decode sampleCodec ''widgets'' widgetArrayJSON =
     Returns (Some (UnstructuredListObject
        \<lparr>ListAPIVersion = ''example.com/v1'', ListKind = ''Widget'', UItems = [widget]\<rparr>),
       Some \<lparr>Group = ''example.com'', Version = ''v1'', Kind = ''Widget''\<rparr>, None)"
    using Decode_strategy_order [THEN conjunct2, THEN conjunct2, THEN conjunct2, THEN conjunct2,
        THEN conjunct1, THEN mp, OF conjI [OF sample_noTyped(2) conjI [OF sample_widgetArray]]]
    by (simp add: GroupVersionKind_of_widget GroupVersion_String_def)
next
  show "\<exists>err. Decode sampleCodec ''widgets'' noKindJSON = Returns (None, None, err)"
    by (rule Decode_strategy_order [THEN conjunct2, THEN conjunct2, THEN conjunct2,
          THEN conjunct2, THEN conjunct2, THEN mp,
          OF conjI [OF sample_noTyped(3) conjI [OF sample_noKind(3) disjI2 [OF sample_noKind(4)]]]])
next
  have "decode partialCodec widgetJSON =
      (Some (OtherObject ''read in part''), None, Some (Error ''strict decoding error''))"
    by (simp add: partialCodec_def)
  from Decode_strategy_order [THEN conjunct2, THEN conjunct2, THEN conjunct1, THEN mp,
      OF conjI [OF this sample_unwrappable(1)]]
  show "Decode partialCodec ''widgets'' widgetJSON =
     Returns (Some (OtherObject ''read in part''), None, None)"
    by simp
qed

subsection \<open>The stamping of list items\<close>

text \<open>
  C2 fails on the code. A complete \<^verbatim>\<open>PodList\<close>, decoded at the first attempt, is
  returned at line 32, before the type switch, with the kind and version of its items
  empty as decoded: by design, the stamping repairs only payloads that had to be
  wrapped. And a bare array of custom resource definitions, decoded through the list
  envelope, gets its items stamped with the kind of the list,
  \<^verbatim>\<open>CustomResourceDefinitionList\<close>, where every other case of the switch has the
  singular.
\<close>

theorem Decode_items_not_stamped_singular:
  "Decode sampleCodec ''pods'' podListJSON =
     Returns (Some (ListObject PodList
        \<lparr>ListTypeMeta = \<lparr>TypeAPIVersion = ''v1'', TypeKind = ''PodList''\<rparr>,
         ListMeta = '''',
         Items = [\<lparr>ItemTypeMeta = \<lparr>TypeAPIVersion = '''', TypeKind = ''''\<rparr>,
                   ItemFields = ''metadata.name=web''\<rparr>]\<rparr>),
      Some \<lparr>Group = '''', Version = ''v1'', Kind = ''PodList''\<rparr>, None) \<and>
   Decode sampleCodec ''customresourcedefinitions'' crdArrayJSON =
     Returns (Some (ListObject CustomResourceDefinitionList
        \<lparr>ListTypeMeta = \<lparr>TypeAPIVersion = ''apiextensions.k8s.io/v1'',
                          TypeKind = ''CustomResourceDefinitionList''\<rparr>,
         ListMeta = ''resourceVersion=1'',
         Items = [\<lparr>ItemTypeMeta = \<lparr>TypeAPIVersion = ''apiextensions.k8s.io/v1'',
                                    TypeKind = ''CustomResourceDefinitionList''\<rparr>,
                   ItemFields = ''metadata.name=widgets.example.com''\<rparr>]\<rparr>),
      Some \<lparr>Group = ''apiextensions.k8s.io'', Version = ''v1'',
            Kind = ''CustomResourceDefinitionList''\<rparr>, None)"
proof (rule conjI)
  show "Decode sampleCodec ''pods'' podListJSON =
     Returns (Some (ListObject PodList
        \<lparr>ListTypeMeta = \<lparr>TypeAPIVersion = ''v1'', TypeKind = ''PodList''\<rparr>,
         ListMeta = '''',
         Items = [\<lparr>ItemTypeMeta = \<lparr>TypeAPIVersion = '''', TypeKind = ''''\<rparr>,
                   ItemFields = ''metadata.name=web''\<rparr>]\<rparr>),
      Some \<lparr>Group = '''', Version = ''v1'', Kind = ''PodList''\<rparr>, None)"
    by (simp add: Decode_def sample_podList webPod_def)
next
  obtain wrapped where w: "wrapListData ''customresourcedefinitions'' crdArrayJSON = Inr wrapped"
    by (simp add: wrapListData_def)
  show "Decode sampleCodec ''customresourcedefinitions'' crdArrayJSON =
     Returns (Some (ListObject CustomResourceDefinitionList
        \<lparr>ListTypeMeta = \<lparr>TypeAPIVersion = ''apiextensions.k8s.io/v1'',
                          TypeKind = ''CustomResourceDefinitionList''\<rparr>,
         ListMeta = ''resourceVersion=1'',
         Items = [\<lparr>ItemTypeMeta = \<lparr>TypeAPIVersion = ''apiextensions.k8s.io/v1'',
                                    TypeKind = ''CustomResourceDefinitionList''\<rparr>,
                   ItemFields = ''metadata.name=widgets.example.com''\<rparr>]\<rparr>),
      Some \<lparr>Group = ''apiextensions.k8s.io'', Version = ''v1'',
            Kind = ''CustomResourceDefinitionList''\<rparr>, None)"
    by (simp add: Decode_def sample_decode_fails w sample_wrapped_crds [OF w] stampItems_0
        widgetsCRD_def SetGroupVersionKind_def ToAPIVersionAndKind_def Empty_def
        GroupVersion_String_def)
qed

text \<open>
  C2, amended. A list that the first typed decode accepts is returned as decoded. When
  that decode fails and the typed decode of the wrapped payload yields a list of one
  of the types of the switch other than \<^verbatim>\<open>CustomResourceDefinitionList\<close>, every item
  of the list Decode returns is stamped with the singular of the list type's kind and
  with the list type's \<^verbatim>\<open>apiVersion\<close>.
\<close>

theorem Decode_stamps_wrapped_lists:
  "(decode c data = (decoded, gvk, None) \<longrightarrow>
      Decode c resource data = Returns (decoded, gvk, None)) \<and>
   (decode c data = (d1, g1, Some e1) \<and> wrapListData resource data = Inr wrapped \<and>
    decode c wrapped = (Some (ListObject t l), g2, e2) \<and> t \<noteq> CustomResourceDefinitionList \<longrightarrow>
      (\<exists>items.
         Decode c resource data = Returns (Some (ListObject t (l\<lparr>Items := items\<rparr>)), g2, None) \<and>
         length items = length (Items l) \<and>
         (\<forall>item \<in> set items.
            TypeKind (ItemTypeMeta item) @ ''List'' = listKind t \<and>
            TypeAPIVersion (ItemTypeMeta item) = listAPIVersion t)))"
proof (intro conjI impI)
  assume "decode c data = (decoded, gvk, None)"
  then show "Decode c resource data = Returns (decoded, gvk, None)"
    by (simp add: Decode_def)
next
  assume a: "decode c data = (d1, g1, Some e1) \<and> wrapListData resource data = Inr wrapped \<and>
    decode c wrapped = (Some (ListObject t l), g2, e2) \<and> t \<noteq> CustomResourceDefinitionList"
  let ?items = "map (\<lambda>item. item\<lparr>ItemTypeMeta :=
      SetGroupVersionKind (switchGVK t) (ItemTypeMeta item)\<rparr>) (Items l)"
  from a have "Decode c resource data =
      Returns (Some (ListObject t (l\<lparr>Items := ?items\<rparr>)), g2, None)"
    by (simp add: Decode_def stampItems_0)
  moreover have "length ?items = length (Items l)"
    by simp
  moreover from a have "\<forall>item \<in> set ?items.
      TypeKind (ItemTypeMeta item) @ ''List'' = listKind t \<and>
      TypeAPIVersion (ItemTypeMeta item) = listAPIVersion t"
    by (simp add: switchGVK_stamp)
  ultimately show "\<exists>items.
         Decode c resource data = Returns (Some (ListObject t (l\<lparr>Items := items\<rparr>)), g2, None) \<and>
         length items = length (Items l) \<and>
         (\<forall>item \<in> set items.
            TypeKind (ItemTypeMeta item) @ ''List'' = listKind t \<and>
            TypeAPIVersion (ItemTypeMeta item) = listAPIVersion t)"
    by (intro exI [of _ ?items] conjI) assumption+
qed

theorem Decode_stamps_wrapped_lists_witness:
  "Decode sampleCodec ''pods'' podListJSON =
     Returns (Some (ListObject PodList
        \<lparr>ListTypeMeta = \<lparr>TypeAPIVersion = ''v1'', TypeKind = ''PodList''\<rparr>,
         ListMeta = '''', Items = [webPod]\<rparr>),
      Some \<lparr>Group = '''', Version = ''v1'', Kind = ''PodList''\<rparr>, None) \<and>
   (\<exists>items.
     Decode sampleCodec ''pods'' podArrayJSON =
       Returns (Some (ListObject PodList
          \<lparr>ListTypeMeta = \<lparr>TypeAPIVersion = ''v1'', TypeKind = ''PodList''\<rparr>,
           ListMeta = ''resourceVersion=1'', Items = items\<rparr>),
        Some \<lparr>Group = '''', Version = ''v1'', Kind = ''PodList''\<rparr>, None) \<and>
     length items = 1 \<and>
     (\<forall>item \<in> set items.
        TypeKind (ItemTypeMeta item) @ ''List'' = ''PodList'' \<and>
        TypeAPIVersion (ItemTypeMeta item) = ''v1''))"
proof (rule conjI)
  show "Decode sampleCodec ''pods'' podListJSON =
     Returns (Some (ListObject PodList
        \<lparr>ListTypeMeta = \<lparr>TypeAPIVersion = ''v1'', TypeKind = ''PodList''\<rparr>,
         ListMeta = '''', Items = [webPod]\<rparr>),
      Some \<lparr>Group = '''', Version = ''v1'', Kind = ''PodList''\<rparr>, None)"
    by (rule Decode_stamps_wrapped_lists [THEN conjunct1, THEN mp, OF sample_podList])
next
  obtain wrapped where w: "wrapListData ''pods'' podArrayJSON = Inr wrapped"
    by (simp add: wrapListData_def)
  have t: "PodList \<noteq> CustomResourceDefinitionList"
    by simp
  from Decode_stamps_wrapped_lists [THEN conjunct2, THEN mp,
      OF conjI [OF sample_decode_fails(1) conjI [OF w conjI [OF sample_wrapped_pods [OF w] t]]]]
  show "\<exists>items.
     Decode sampleCodec ''pods'' podArrayJSON =
       Returns (Some (ListObject PodList
          \<lparr>ListTypeMeta = \<lparr>TypeAPIVersion = ''v1'', TypeKind = ''PodList''\<rparr>,
           ListMeta = ''resourceVersion=1'', Items = items\<rparr>),
        Some \<lparr>Group = '''', Version = ''v1'', Kind = ''PodList''\<rparr>, None) \<and>
     length items = 1 \<and>
     (\<forall>item \<in> set items.
        TypeKind (ItemTypeMeta item) @ ''List'' = ''PodList'' \<and>
        TypeAPIVersion (ItemTypeMeta item) = ''v1'')"
    by (simp add: webPod_def)
qed

subsection \<open>The order of a sorted list\<close>

text \<open>
  C3 fails on the code by design. \<open>objA\<close> and \<open>objB\<close> have the same (missing) creation
  timestamp and the same namespace, and \<open>a\<close> precedes \<open>b\<close>. On a list of the two,
  where \<^verbatim>\<open>sort.Slice\<close> runs the insertion sort, SortUnstructuredList leaves \<open>objB\<close>
  before \<open>objA\<close> when they come in that order: ties are not ordered by namespace and
  name, and two orderings of the same items give two different results.
\<close>

theorem SortUnstructuredList_ties_keep_input_order:
  "SortUnstructuredList insertionSort_func
     \<lparr>ListAPIVersion = ''v1'', ListKind = ''ConfigMapList'', UItems = [objB, objA]\<rparr> =
     \<lparr>ListAPIVersion = ''v1'', ListKind = ''ConfigMapList'', UItems = [objB, objA]\<rparr> \<and>
   SortUnstructuredList insertionSort_func
     \<lparr>ListAPIVersion = ''v1'', ListKind = ''ConfigMapList'', UItems = [objA, objB]\<rparr> =
     \<lparr>ListAPIVersion = ''v1'', ListKind = ''ConfigMapList'', UItems = [objA, objB]\<rparr> \<and>
   mset [objB, objA] = mset [objA, objB] \<and>
   [objB, objA] \<noteq> [objA, objB] \<and>
   GetCreationTimestamp objA = GetCreationTimestamp objB \<and>
   namespace objA = namespace objB \<and> name objA = ''a'' \<and> name objB = ''b''"
  by (simp add: SortUnstructuredList_def insertionSort_func_def insertionSortFrom.simps
      insertionSortInner.simps GetCreationTimestamp_def Before_def objA_def objB_def)

text \<open>
  C3, amended. Whenever \<^verbatim>\<open>sort.Slice\<close> keeps its promise for the comparison of the
  source, SortUnstructuredList leaves the same items in ascending order of creation
  timestamp, a missing timestamp counting as the zero time, and leaves the list's
  own kind and version as they were. The example runs Go's insertion sort on three
  items.
\<close>

theorem SortUnstructuredList_sorts_by_timestamp:
  "sortsBy sortSlice (\<lambda>i j. Before (GetCreationTimestamp i) (GetCreationTimestamp j)) \<longrightarrow>
     sorted (map GetCreationTimestamp (UItems (SortUnstructuredList sortSlice list))) \<and>
     mset (UItems (SortUnstructuredList sortSlice list)) = mset (UItems list) \<and>
     ListAPIVersion (SortUnstructuredList sortSlice list) = ListAPIVersion list \<and>
     ListKind (SortUnstructuredList sortSlice list) = ListKind list \<and>
     (creationTimestamp u = None \<longrightarrow> GetCreationTimestamp u = 0)"
proof
  assume "sortsBy sortSlice (\<lambda>i j. Before (GetCreationTimestamp i) (GetCreationTimestamp j))"
  then have m: "mset (sortSlice (\<lambda>i j. Before (GetCreationTimestamp i) (GetCreationTimestamp j))
        (UItems list)) = mset (UItems list)"
    and s: "sorted_wrt (\<lambda>x y. \<not> Before (GetCreationTimestamp y) (GetCreationTimestamp x))
       (sortSlice (\<lambda>i j. Before (GetCreationTimestamp i) (GetCreationTimestamp j)) (UItems list))"
    by (simp_all add: sortsBy_def)
  from s have "sorted (map GetCreationTimestamp
      (sortSlice (\<lambda>i j. Before (GetCreationTimestamp i) (GetCreationTimestamp j)) (UItems list)))"
    by (simp add: sorted_map Before_def not_less)
  with m show "sorted (map GetCreationTimestamp (UItems (SortUnstructuredList sortSlice list))) \<and>
     mset (UItems (SortUnstructuredList sortSlice list)) = mset (UItems list) \<and>
     ListAPIVersion (SortUnstructuredList sortSlice list) = ListAPIVersion list \<and>
     ListKind (SortUnstructuredList sortSlice list) = ListKind list \<and>
     (creationTimestamp u = None \<longrightarrow> GetCreationTimestamp u = 0)"
    by (simp add: SortUnstructuredList_def GetCreationTimestamp_def)
qed

theorem SortUnstructuredList_sorts_by_timestamp_witness:
  "sorted (map GetCreationTimestamp (UItems (SortUnstructuredList insertionSort_func
      \<lparr>ListAPIVersion = ''v1'', ListKind = ''ConfigMapList'',
       UItems = [objB\<lparr>creationTimestamp := Some 1700000300\<rparr>, objA,
                 objB\<lparr>creationTimestamp := Some 1700000100\<rparr>]\<rparr>))) \<and>
   mset (UItems (SortUnstructuredList insertionSort_func
      \<lparr>ListAPIVersion = ''v1'', ListKind = ''ConfigMapList'',
       UItems = [objB\<lparr>creationTimestamp := Some 1700000300\<rparr>, objA,
                 objB\<lparr>creationTimestamp := Some 1700000100\<rparr>]\<rparr>)) =
     mset [objB\<lparr>creationTimestamp := Some 1700000300\<rparr>, objA,
           objB\<lparr>creationTimestamp := Some 1700000100\<rparr>] \<and>
   GetCreationTimestamp objA = 0"
proof -
  have "sortsBy insertionSort_func
      (\<lambda>i j :: string Unstructured. Before (GetCreationTimestamp i) (GetCreationTimestamp j))"
    unfolding Before_def by (rule insertionSort_func_sortsBy)
  from SortUnstructuredList_sorts_by_timestamp [THEN mp, OF this,
      of "\<lparr>ListAPIVersion = ''v1'', ListKind = ''ConfigMapList'',
       UItems = [objB\<lparr>creationTimestamp := Some 1700000300\<rparr>, objA,
                 objB\<lparr>creationTimestamp := Some 1700000100\<rparr>]\<rparr>" objA]
  show ?thesis
    by (simp add: objA_def)
qed

subsection \<open>When every strategy fails\<close>

text \<open>
  C4 fails on the code. When no typed decode leaves an object, the payload is not an
  untyped object and it is an empty JSON array, Decode returns no object, no kind and
  no error: \<^verbatim>\<open>errors.Wrap\<close> of a \<^verbatim>\<open>nil\<close> error is \<^verbatim>\<open>nil\<close>. The example is the payload
  \<^verbatim>\<open>[]\<close> with the unrecognized hint \<^verbatim>\<open>configmaps\<close>.
\<close>

theorem Decode_empty_array_nil_error:
  "noTypedObject c resource data \<and> Unstructured_UnmarshalJSON c data = Inl e \<and>
   UnstructuredSlice_Unmarshal c data = Inr [] \<longrightarrow>
     Decode c resource data = Returns (None, None, None)"
  by (simp add: Decode_untyped)

theorem Decode_empty_array_nil_error_witness:
  "Decode sampleCodec ''configmaps'' emptyArrayJSON = Returns (None, None, None)"
  using Decode_empty_array_nil_error [THEN mp,
      OF conjI [OF sample_noTyped(4) conjI [OF sample_emptyArray]]] .

subsection \<open>The kind of an untyped list\<close>

text \<open>
  C5 fails on the code by design. The array \<^verbatim>\<open>[{"kind":"Widget",...}]\<close> with an
  unrecognized hint comes back as a list whose own kind is \<^verbatim>\<open>Widget\<close>, which does not
  end in \<^verbatim>\<open>List\<close>.
\<close>

theorem Decode_untyped_list_kind_not_List:
  "Decode sampleCodec ''widgets'' widgetArrayJSON =
     Returns (Some (UnstructuredListObject
        \<lparr>ListAPIVersion = ''example.com/v1'', ListKind = ''Widget'', UItems = [widget]\<rparr>),
      Some \<lparr>Group = ''example.com'', Version = ''v1'', Kind = ''Widget''\<rparr>, None) \<and>
   \<not> endsInList ''Widget''"
  by (simp add: Decode_untyped sample_noTyped sample_widgetArray GroupVersionKind_of_widget
      GroupVersion_String_def endsInList_def)

text \<open>
  C5, amended. The list that the untyped-array attempt returns carries the kind and
  the group and version of its first element, which is also the kind returned beside
  it, so its kind ends in \<^verbatim>\<open>List\<close> exactly when the first element's kind does; its
  items are the elements of the array, each with its own non-empty kind.
\<close>

theorem Decode_untyped_list_carries_first_kind:
  "noTypedObject c resource data \<and> Unstructured_UnmarshalJSON c data = Inl e \<and>
   UnstructuredSlice_Unmarshal c data = Inr (first # others) \<longrightarrow>
     (\<exists>l. Decode c resource data =
            Returns (Some (UnstructuredListObject l), Some (GroupVersionKind_of first), None) \<and>
          ListKind l = kind first \<and> kind first \<noteq> '''' \<and>
          ListAPIVersion l =
            GroupVersion_String (Group (GroupVersionKind_of first))
              (Version (GroupVersionKind_of first)) \<and>
          UItems l = first # others \<and>
          (\<forall>u \<in> set (UItems l). kind u \<noteq> '''') \<and>
          endsInList (ListKind l) = endsInList (kind first))"
proof
  assume a: "noTypedObject c resource data \<and> Unstructured_UnmarshalJSON c data = Inl e \<and>
   UnstructuredSlice_Unmarshal c data = Inr (first # others)"
  then have s: "UnstructuredSlice_Unmarshal c data = Inr (first # others)"
    by simp
  have kinds: "\<forall>u \<in> set (first # others). kind u \<noteq> ''''"
    using UnstructuredSlice_Unmarshal_kinds [OF s] by simp
  from a show "\<exists>l. Decode c resource data =
            Returns (Some (UnstructuredListObject l), Some (GroupVersionKind_of first), None) \<and>
          ListKind l = kind first \<and> kind first \<noteq> '''' \<and>
          ListAPIVersion l =
            GroupVersion_String (Group (GroupVersionKind_of first))
              (Version (GroupVersionKind_of first)) \<and>
          UItems l = first # others \<and>
          (\<forall>u \<in> set (UItems l). kind u \<noteq> '''') \<and>
          endsInList (ListKind l) = endsInList (kind first)"
    using kinds UnstructuredSlice_Unmarshal_first [OF s]
    by (simp add: Decode_untyped)
qed

theorem Decode_untyped_list_carries_first_kind_witness:
  "\<exists>l. Decode sampleCodec ''widgets'' widgetArrayJSON =
          Returns (Some (UnstructuredListObject l), Some (GroupVersionKind_of widget), None) \<and>
        ListKind l = ''Widget'' \<and> ListAPIVersion l = ''example.com/v1'' \<and>
        UItems l = [widget] \<and> \<not> endsInList (ListKind l)"
  using Decode_untyped_list_carries_first_kind [THEN mp,
      OF conjI [OF sample_noTyped(2) conjI [OF sample_widgetArray]]]
  apply (simp add: GroupVersionKind_of_widget GroupVersion_String_def kind_widget endsInList_def)
  apply (elim exE conjE)
  apply (intro exI conjI)
      apply assumption+
  done

subsection \<open>The list envelope\<close>

text \<open>
  C6. For every recognized resource hint, \<open>wrapListData\<close> returns the text of a JSON
  envelope whose \<^verbatim>\<open>kind\<close> is the hint's list kind, whose \<^verbatim>\<open>apiVersion\<close> is the group
  and version of that resource, whose \<^verbatim>\<open>metadata.resourceVersion\<close> is \<^verbatim>\<open>"1"\<close> and
  whose \<^verbatim>\<open>items\<close> are the payload, byte for byte; for every other hint it returns
  an error and no data.
\<close>

theorem wrapListData_envelope:
  \<open>((resource, K, V) \<in> set
        [(''pods'', ''PodList'', ''v1''),
         (''events'', ''EventList'', ''v1''),
         (''cronjobs'', ''CronJobList'', ''batch/v1beta1''),
         (''deployments'', ''DeploymentList'', ''apps/v1''),
         (''ingress'', ''IngressList'', ''networking.k8s.io/v1''),
         (''ingresses'', ''IngressList'', ''networking.k8s.io/v1''),
         (''jobs'', ''JobList'', ''batch/v1''),
         (''limitranges'', ''LimitRangeList'', ''v1''),
         (''pvcs'', ''PersistentVolumeClaimList'', ''v1''),
         (''replicasets'', ''ReplicaSetList'', ''apps/v1''),
         (''services'', ''ServiceList'', ''v1''),
         (''statefulsets'', ''StatefulSetList'', ''apps/v1''),
         (''namespaces'', ''NamespaceList'', ''v1''),
         (''nodes'', ''NodeList'', ''v1''),
         (''persistentvolumes'', ''PersistentVolumeList'', ''v1''),
         (''persistentvolumeclaims'', ''PersistentVolumeClaimList'', ''v1''),
         (''storageclasses'', ''StorageClassList'', ''storage.k8s.io/v1''),
         (''customresourcedefinitions'', ''CustomResourceDefinitionList'',
            ''apiextensions.k8s.io/v1'')]
      \<longrightarrow> wrapListData resource data =
            Inr (''{\<newline>'' @
                 [CHR 0x09, CHR 0x09] @ ''"kind": "'' @ K @ ''",\<newline>'' @
                 [CHR 0x09, CHR 0x09] @ ''"apiVersion": "'' @ V @ ''",\<newline>'' @
                 [CHR 0x09, CHR 0x09] @ ''"metadata": {\<newline>'' @
                 [CHR 0x09, CHR 0x09, CHR 0x09] @ ''"resourceVersion": "1"\<newline>'' @
                 [CHR 0x09, CHR 0x09] @ ''},\<newline>'' @
                 [CHR 0x09, CHR 0x09] @ ''"items": '' @ data @ ''\<newline>'' @
                 [CHR 0x09] @ ''}'')) \<and>
    (resource \<notin> set
        [''pods'', ''events'', ''cronjobs'', ''deployments'', ''ingress'', ''ingresses'',
         ''jobs'', ''limitranges'', ''pvcs'', ''replicasets'', ''services'', ''statefulsets'',
         ''namespaces'', ''nodes'', ''persistentvolumes'', ''persistentvolumeclaims'',
         ''storageclasses'', ''customresourcedefinitions'']
      \<longrightarrow> wrapListData resource data = Inl (Error (''don't know how to wrap '' @ resource)))\<close>
  (is "(?known \<longrightarrow> ?wrapped) \<and> (?unknown \<longrightarrow> ?refused)")
proof (intro conjI impI)
  assume ?unknown
  then show ?refused
    by (simp add: wrapListData_def)
next
  assume ?known
  then show ?wrapped
    apply (simp only: list.set insert_iff empty_iff prod.inject)
    apply (elim disjE conjE FalseE)
    apply (simp_all add: wrapListData_def)
    done
qed

theorem wrapListData_envelope_witness:
  \<open>wrapListData ''cronjobs'' ''[]'' =
      Inr (''{\<newline>'' @
           [CHR 0x09, CHR 0x09] @ ''"kind": "CronJobList",\<newline>'' @
           [CHR 0x09, CHR 0x09] @ ''"apiVersion": "batch/v1beta1",\<newline>'' @
           [CHR 0x09, CHR 0x09] @ ''"metadata": {\<newline>'' @
           [CHR 0x09, CHR 0x09, CHR 0x09] @ ''"resourceVersion": "1"\<newline>'' @
           [CHR 0x09, CHR 0x09] @ ''},\<newline>'' @
           [CHR 0x09, CHR 0x09] @ ''"items": []\<newline>'' @
           [CHR 0x09] @ ''}'') \<and>
    wrapListData ''configmaps'' ''[]'' = Inl (Error ''don't know how to wrap configmaps'')\<close>
  using wrapListData_envelope [of "''cronjobs''" "''CronJobList''" "''batch/v1beta1''" "''[]''"]
    wrapListData_envelope [of "''configmaps''" "''''" "''''" "''[]''"]
  by simp

subsection \<open>The kind of an untyped object\<close>

text \<open>
  C7. Among the untyped attempts, an untyped object is returned only when it is the
  map read from the original bytes and carries a non-empty kind, which is also the
  kind returned beside it; when the map read from the bytes has an empty kind, no
  untyped object is returned as a successful decode.
\<close>

theorem Decode_untyped_object_has_kind:
  "noTypedObject c resource data \<longrightarrow>
     (Decode c resource data = Returns (Some (UnstructuredObject v), gvk, err) \<longrightarrow>
        unmarshalMap c data = Inr v \<and> kind v \<noteq> '''' \<and>
        gvk = Some (GroupVersionKind_of v) \<and> Kind (GroupVersionKind_of v) = kind v \<and>
        err = None) \<and>
     (unmarshalMap c data = Inr u \<and> kind u = '''' \<longrightarrow>
        (\<forall>w g e. Decode c resource data \<noteq> Returns (Some (UnstructuredObject w), g, e)))"
proof (intro impI conjI)
  assume n: "noTypedObject c resource data"
  assume d: "Decode c resource data = Returns (Some (UnstructuredObject v), gvk, err)"
  from d have r: "Unstructured_UnmarshalJSON c data = Inr v"
    and g: "gvk = Some (GroupVersionKind_of v)" "err = None"
    by (auto simp: Decode_untyped [OF n] split: sum.splits list.splits)
  from Unstructured_UnmarshalJSON_Inr [OF r] g
  show "unmarshalMap c data = Inr v" "kind v \<noteq> ''''" "gvk = Some (GroupVersionKind_of v)"
    "Kind (GroupVersionKind_of v) = kind v" "err = None"
    by simp_all
next
  assume n: "noTypedObject c resource data"
  assume "unmarshalMap c data = Inr u \<and> kind u = ''''"
  then have "\<exists>e. Unstructured_UnmarshalJSON c data = Inl e"
    by (auto simp: Unstructured_UnmarshalJSON_def GroupVersionKind_of_def
        split: sum.splits prod.splits)
  then show "\<forall>w g e. Decode c resource data \<noteq> Returns (Some (UnstructuredObject w), g, e)"
    by (auto simp: Decode_untyped [OF n] split: sum.splits list.splits)
qed

theorem Decode_untyped_object_has_kind_witness:
  "unmarshalMap sampleCodec widgetJSON = Inr widget \<and> kind widget \<noteq> '''' \<and>
   Kind (GroupVersionKind_of widget) = kind widget \<and>
   (\<forall>w g e. Decode sampleCodec ''widgets'' noKindJSON \<noteq>
      Returns (Some (UnstructuredObject w), g, e))"
proof -
  have d: "Decode sampleCodec ''widgets'' widgetJSON =
      Returns (Some (UnstructuredObject widget), Some (GroupVersionKind_of widget), None)"
    by (simp add: Decode_untyped sample_noTyped sample_widget)
  have k: "unmarshalMap sampleCodec noKindJSON = Inr noKind \<and> kind noKind = ''''"
    by (simp add: sample_noKind)
  from Decode_untyped_object_has_kind [THEN mp, OF sample_noTyped(1), THEN conjunct1, THEN mp, OF d]
    Decode_untyped_object_has_kind [THEN mp, OF sample_noTyped(3), THEN conjunct2, THEN mp, OF k]
  show ?thesis
    by simp
qed

subsection \<open>The stamping pass, twice\<close>

text \<open>
  C8. The stamping pass is idempotent: it always returns, and applied to its own
  result it returns that result unchanged. This holds for every object, so for a
  list of each of the sixteen types of the switch.
\<close>

theorem stampGVK_idempotent:
  "\<exists>stamped. stampGVK obj = Returns stamped \<and> stampGVK stamped = Returns stamped"
  by (cases obj) (simp_all add: stampItems_0 SetGroupVersionKind_twice)

subsection \<open>Panics\<close>

text \<open>
  C9 fails on the code in its second half. Decode never panics, whatever the parsers
  answer; but on the payload \<^verbatim>\<open>[]\<close> with the unrecognized hint \<^verbatim>\<open>secrets\<close> it
  returns neither an object nor an error.
\<close>

theorem Decode_returns_neither_object_nor_error:
  "Decode c resource data \<noteq> Panic \<and>
   Decode sampleCodec ''secrets'' emptyArrayJSON = Returns (None, None, None)"
  by (simp add: Decode_never_panics Decode_untyped sample_noTyped sample_emptyArray)

subsection \<open>What the stamping leaves alone\<close>

text \<open>
  C10. The stamping is a frame over the items' type metadata. When the first typed
  decode succeeds, Decode returns its object and kind untouched. When the typed decode
  of the wrapped payload yields a list of one of the sixteen types, Decode returns
  that list with the same dynamic type, the same type and list metadata, the same
  number of items and the same fields in every item, only the items' type metadata
  being rewritten, together with the kind that decode returned.
\<close>

theorem Decode_stamping_frame:
  "(decode c data = (decoded, gvk, None) \<longrightarrow>
      Decode c resource data = Returns (decoded, gvk, None)) \<and>
   (decode c data = (d1, g1, Some e1) \<and> wrapListData resource data = Inr wrapped \<and>
    decode c wrapped = (Some (ListObject t l), g2, e2) \<longrightarrow>
      (\<exists>items.
         Decode c resource data = Returns (Some (ListObject t (l\<lparr>Items := items\<rparr>)), g2, None) \<and>
         length items = length (Items l) \<and>
         map ItemFields items = map ItemFields (Items l)))"
  by (auto simp: Decode_def stampItems_0 comp_def)

theorem Decode_stamping_frame_witness:
  "Decode sampleCodec ''pods'' podListJSON =
     Returns (Some (ListObject PodList
        \<lparr>ListTypeMeta = \<lparr>TypeAPIVersion = ''v1'', TypeKind = ''PodList''\<rparr>,
         ListMeta = '''', Items = [webPod]\<rparr>),
      Some \<lparr>Group = '''', Version = ''v1'', Kind = ''PodList''\<rparr>, None) \<and>
   (\<exists>items.
      Decode sampleCodec ''pods'' podArrayJSON =
        Returns (Some (ListObject PodList
           \<lparr>ListTypeMeta = \<lparr>TypeAPIVersion = ''v1'', TypeKind = ''PodList''\<rparr>,
            ListMeta = ''resourceVersion=1'', Items = items\<rparr>),
         Some \<lparr>Group = '''', Version = ''v1'', Kind = ''PodList''\<rparr>, None) \<and>
      length items = 1 \<and>
      map ItemFields items = [''metadata.name=web''])"
proof (rule conjI)
  show "Decode sampleCodec ''pods'' podListJSON =
     Returns (Some (ListObject PodList
        \<lparr>ListTypeMeta = \<lparr>TypeAPIVersion = ''v1'', TypeKind = ''PodList''\<rparr>,
         ListMeta = '''', Items = [webPod]\<rparr>),
      Some \<lparr>Group = '''', Version = ''v1'', Kind = ''PodList''\<rparr>, None)"
    by (rule Decode_stamping_frame [THEN conjunct1, THEN mp, OF sample_podList])
next
  obtain wrapped where w: "wrapListData ''pods'' podArrayJSON = Inr wrapped"
    by (simp add: wrapListData_def)
  from Decode_stamping_frame [THEN conjunct2, THEN mp,
      OF conjI [OF sample_decode_fails(1) conjI [OF w sample_wrapped_pods [OF w]]]]
  show "\<exists>items.
      Decode sampleCodec ''pods'' podArrayJSON =
        Returns (Some (ListObject PodList
           \<lparr>ListTypeMeta = \<lparr>TypeAPIVersion = ''v1'', TypeKind = ''PodList''\<rparr>,
            ListMeta = ''resourceVersion=1'', Items = items\<rparr>),
         Some \<lparr>Group = '''', Version = ''v1'', Kind = ''PodList''\<rparr>, None) \<and>
      length items = 1 \<and>
      map ItemFields items = [''metadata.name=web'']"
    by (simp add: webPod_def)
qed

end
